theory Spec2Isabelle
  imports Complex_Main "HOL-Library.Sublist"
begin

text \<open>
  The mention ingestion and deduplication pipeline of the dashboard: the RSS collector
  (\<open>api/collect.js\<close>), the Law360 collector (\<open>api/law360_collect.js\<close>) and the
  congress tracker, with the Redis store they share. The definitions follow the source
  functions by name. What belongs to the runtime (strings, the clock, the Redis
  commands) is modelled beside them, with the limits of each model stated where it is
  defined. The URL class of the runtime, the imported predicates and the reply format of
  the Redis client are parameters of the functions that use them; one URL class is
  written out, on a fragment of its inputs, for the statements that need one. The
  statements about the pipeline follow the definitions.
\<close>

section \<open>Strings of the JavaScript runtime\<close>

text \<open>
  A JavaScript string is modelled as an Isabelle \<open>string\<close>: a list of 8-bit code
  units. The model therefore speaks about strings all of whose UTF-16 code units are
  below 256; \<open>charCodeAt\<close> is \<open>of_char\<close>.
\<close>

definition is_upper :: "char \<Rightarrow> bool" where
  "is_upper c = (let n = (of_char c :: nat) in
     (65 \<le> n \<and> n \<le> 90) \<or> (192 \<le> n \<and> n \<le> 222 \<and> n \<noteq> 215))"

definition lower_char :: "char \<Rightarrow> char" where
  "lower_char c = (if is_upper c then char_of ((of_char c :: nat) + 32) else c)"

text \<open>\<open>String.prototype.toLowerCase\<close> on code units below 256.\<close>

definition toLowerCase :: "string \<Rightarrow> string" where
  "toLowerCase s = map lower_char s"

definition is_digit :: "char \<Rightarrow> bool" where
  "is_digit c = (let n = (of_char c :: nat) in 48 \<le> n \<and> n \<le> 57)"

definition is_alpha :: "char \<Rightarrow> bool" where
  "is_alpha c = (let n = (of_char c :: nat) in (65 \<le> n \<and> n \<le> 90) \<or> (97 \<le> n \<and> n \<le> 122))"

definition is_alnum :: "char \<Rightarrow> bool" where
  "is_alnum c = (is_alpha c \<or> is_digit c)"

text \<open>The regular-expression class \<open>\w\<close>: ASCII letters, digits and the underscore.\<close>

definition is_word_char :: "char \<Rightarrow> bool" where
  "is_word_char c = (is_alnum c \<or> c = CHR ''_'')"

text \<open>
  White space as \<open>trim\<close> and the class \<open>\s\<close> see it, among code units below 256:
  tab, line feed, vertical tab, form feed, carriage return, space, no-break space.
\<close>

definition is_space :: "char \<Rightarrow> bool" where
  "is_space c = ((of_char c :: nat) \<in> {9, 10, 11, 12, 13, 32, 160})"

definition trim :: "string \<Rightarrow> string" where
  "trim s = rev (dropWhile is_space (rev (dropWhile is_space s)))"

definition startsWith :: "string \<Rightarrow> string \<Rightarrow> bool" where
  "startsWith s k = prefix k s"

definition endsWith :: "string \<Rightarrow> string \<Rightarrow> bool" where
  "endsWith s k = suffix k s"

text \<open>\<open>s.includes(k)\<close>: \<open>k\<close> occurs in \<open>s\<close> as a contiguous substring.\<close>

fun js_includes :: "string \<Rightarrow> string \<Rightarrow> bool" where
  "js_includes [] k = (k = [])"
| "js_includes (c # cs) k = (prefix k (c # cs) \<or> js_includes cs k)"

text \<open>\<open>a || b\<close> on strings: the empty string is the only falsy string.\<close>

definition or_else :: "string \<Rightarrow> string \<Rightarrow> string" where
  "or_else a b = (if a = [] then b else a)"

text \<open>\<open>xs.join(sep)\<close>.\<close>

fun join :: "string \<Rightarrow> string list \<Rightarrow> string" where
  "join sep [] = []"
| "join sep [x] = x"
| "join sep (x # y # ys) = x @ sep @ join sep (y # ys)"

text \<open>
  \<open>s.split(' ')\<close>: cut at every single space; the pieces may be empty, and the
  empty string gives one empty piece.
\<close>

fun split_acc :: "char \<Rightarrow> string \<Rightarrow> string \<Rightarrow> string list" where
  "split_acc sep cur [] = [cur]"
| "split_acc sep cur (c # cs) =
     (if c = sep then cur # split_acc sep [] cs else split_acc sep (cur @ [c]) cs)"

definition split_char :: "char \<Rightarrow> string \<Rightarrow> string list" where
  "split_char sep s = split_acc sep [] s"

text \<open>
  \<open>s.split(/\s+/)\<close>: cut at every maximal run of white space; a run at the start or
  the end leaves an empty first or last piece.
\<close>

fun split_ws_acc :: "string \<Rightarrow> bool \<Rightarrow> string \<Rightarrow> string list" where
  "split_ws_acc cur inrun [] = [cur]"
| "split_ws_acc cur inrun (c # cs) =
     (if is_space c
      then (if inrun then split_ws_acc [] True cs else cur # split_ws_acc [] True cs)
      else split_ws_acc (cur @ [c]) False cs)"

definition split_ws :: "string \<Rightarrow> string list" where
  "split_ws s = split_ws_acc [] False s"

section \<open>Mention ids\<close>

text \<open>
  \<open>idFromCanonical\<close> exists three times, once per producer, with the same loop
  \<open>h = (h * 31 + c.charCodeAt(i)) >>> 0\<close> and a different prefix. \<open>h\<close> stays below
  \<open>2^32\<close>, so \<open>h * 31 + c\<close> is exact in a double and \<open>>>> 0\<close> reduces it modulo
  \<open>2^32\<close>. The model keeps \<open>h\<close> as a natural number and writes the reduction out.
\<close>

definition canon_hash :: "string \<Rightarrow> nat" where
  "canon_hash c = foldl (\<lambda>h ch. (h * 31 + of_char ch) mod 2 ^ 32) 0 c"

text \<open>The digit of a value below 16; it is only used below 16.\<close>

definition hex_digit :: "nat \<Rightarrow> char" where
  "hex_digit d = ''0123456789abcdef'' ! d"

text \<open>\<open>h.toString(16)\<close>: lower-case hexadecimal without leading zeros.\<close>

function toString16 :: "nat \<Rightarrow> string" where
  "toString16 n = (if n < 16 then [hex_digit n] else toString16 (n div 16) @ [hex_digit (n mod 16)])"
  by pat_completeness auto
termination
  by (relation "measure id") auto

declare toString16.simps [simp del]

definition idFromCanonical :: "string \<Rightarrow> string" where
  "idFromCanonical c = ''m_'' @ toString16 (canon_hash c)"

definition law360_idFromCanonical :: "string \<Rightarrow> string" where
  "law360_idFromCanonical c = ''law360_'' @ toString16 (canon_hash c)"

definition congress_idFromCanonical :: "string \<Rightarrow> string" where
  "congress_idFromCanonical c = ''congress_'' @ toString16 (canon_hash c)"

section \<open>The store\<close>

text \<open>
  A stored member is the JSON serialization of a mention object. The model keeps the
  object itself: \<open>JSON.stringify\<close> writes the fields in the order the object literal
  lists them, so two members are the same string exactly when the objects have the same
  fields. The field \<open>published\<close> is left out: it is the ISO rendering of
  \<open>published_ts\<close>, a function of a field that is kept.
\<close>

record milestones =
  conference_committee :: bool
  conference_report_filed :: bool
  house_vote_scheduled :: bool
  house_vote_completed :: bool
  senate_vote_scheduled :: bool
  senate_vote_completed :: bool
  sent_to_president :: bool
  signed_into_law :: bool

datatype extra =
    RssExtra "int option"
  | Law360Extra string int
  | CongressExtra "string list" string string milestones nat string string

text \<open>
  \<open>RssExtra\<close> carries the optional \<open>sentiment\<close>; \<open>Law360Extra\<close> the fields
  \<open>provider\<close> and \<open>reach\<close>; \<open>CongressExtra\<close> the fields \<open>matched\<close>,
  \<open>bill_number\<close>, \<open>congress_number\<close>, \<open>milestones\<close>, \<open>amendments_count\<close>,
  \<open>latest_action\<close> and \<open>latest_action_date\<close>.
\<close>

record mention =
  m_id :: string
  m_canon :: string
  m_section :: string
  m_title :: string
  m_link :: string
  m_source :: string
  m_summary :: string
  m_origin :: string
  m_published_ts :: int
  m_extra :: extra

text \<open>
  The three Redis keys: the sorted set \<open>mentions:z\<close> (members with their scores; a
  member occurs once), and the sets \<open>mentions:seen\<close> and \<open>mentions:seen:canon\<close>.
  The sorted set is kept as a list of (member, score) pairs in insertion order; Redis
  answers range queries in score order, and nothing below depends on the order.
\<close>

record store =
  zset :: "(mention \<times> int) list"
  seen_id :: "string set"
  seen_link :: "string set"

definition empty_store :: store where
  "empty_store = \<lparr>zset = [], seen_id = {}, seen_link = {}\<rparr>"

text \<open>\<open>SADD key x\<close>: adds \<open>x\<close> and answers 1 when it was absent, else answers 0.\<close>

definition sadd :: "string set \<Rightarrow> string \<Rightarrow> string set \<times> nat" where
  "sadd S x = (if x \<in> S then (S, 0) else (insert x S, 1))"

text \<open>\<open>ZADD key score member\<close>: a member already present only has its score replaced.\<close>

definition zadd :: "(mention \<times> int) list \<Rightarrow> int \<Rightarrow> mention \<Rightarrow> (mention \<times> int) list" where
  "zadd z score member =
     (if member \<in> fst ` set z
      then map (\<lambda>(m, s). if m = member then (m, score) else (m, s)) z
      else z @ [(member, score)])"

text \<open>\<open>ZREMRANGEBYSCORE key -inf hi\<close>: removes the members with score at most \<open>hi\<close>.\<close>

definition zremrangebyscore_neg_inf :: "(mention \<times> int) list \<Rightarrow> int \<Rightarrow> (mention \<times> int) list" where
  "zremrangebyscore_neg_inf z hi = filter (\<lambda>(m, s). \<not> s \<le> hi) z"

text \<open>\<open>ZRANGE key lo hi BYSCORE\<close> and \<open>ZRANGE key lo +inf BYSCORE\<close>: both ends inclusive.\<close>

definition zrange_byscore :: "(mention \<times> int) list \<Rightarrow> int \<Rightarrow> int \<Rightarrow> mention list" where
  "zrange_byscore z lo hi = map fst (filter (\<lambda>(m, s). lo \<le> s \<and> s \<le> hi) z)"

definition zrange_byscore_inf :: "(mention \<times> int) list \<Rightarrow> int \<Rightarrow> mention list" where
  "zrange_byscore_inf z lo = map fst (filter (\<lambda>(m, s). lo \<le> s) z)"

definition RETENTION_DAYS :: int where
  "RETENTION_DAYS = 14"

text \<open>
  The trim every producer runs after a store: \<open>now_ms\<close> is the reading of
  \<open>Date.now()\<close>.
\<close>

definition retention_trim :: "int \<Rightarrow> store \<Rightarrow> store" where
  "retention_trim now_ms st =
     (let cutoffTimestamp = now_ms div 1000 - RETENTION_DAYS * 24 * 60 * 60
      in st\<lparr>zset := zremrangebyscore_neg_inf (zset st) cutoffTimestamp\<rparr>)"

text \<open>\<open>toEpoch\<close>: \<open>parsed\<close> is the result of \<open>Date.parse\<close> when it is finite.\<close>

definition toEpoch :: "int option \<Rightarrow> int \<Rightarrow> int" where
  "toEpoch parsed now_ms = (case parsed of Some t \<Rightarrow> t div 1000 | None \<Rightarrow> now_ms div 1000)"

section \<open>Sentiment\<close>

definition POS :: "string list" where
  "POS = [''win'', ''surge'', ''rally'', ''gain'', ''positive'', ''bull'', ''record'',
          ''secure'', ''approve'', ''partnership'']"

definition NEG :: "string list" where
  "NEG = [''hack'', ''breach'', ''lawsuit'', ''fine'', ''down'', ''drop'', ''negative'',
          ''bear'', ''investigate'', ''halt'', ''outage'', ''delay'', ''ban'']"

definition sentimentScore :: "string \<Rightarrow> int" where
  "sentimentScore t0 =
     (let t = toLowerCase t0
      in int (length (filter (js_includes t) POS)) - int (length (filter (js_includes t) NEG)))"

section \<open>The insertion steps of the RSS and the Law360 collectors\<close>

record feed =
  f_url :: string
  f_origin :: string
  f_section :: string

text \<open>The locals of the item loop when the insertion is reached.\<close>

record item_locals =
  l_title :: string
  l_link :: string
  l_source :: string
  l_sum :: string
  l_ts :: int

definition collect_mention :: "bool \<Rightarrow> feed \<Rightarrow> item_locals \<Rightarrow> string \<Rightarrow> mention" where
  "collect_mention ENABLE_SENTIMENT fc it canon =
     \<lparr>m_id = idFromCanonical canon, m_canon = canon, m_section = f_section fc,
      m_title = or_else (l_title it) ''(untitled)'', m_link = l_link it,
      m_source = l_source it, m_summary = l_sum it, m_origin = f_origin fc,
      m_published_ts = l_ts it,
      m_extra = RssExtra (if ENABLE_SENTIMENT
                          then Some (sentimentScore (l_title it @ '' '' @ l_sum it))
                          else None)\<rparr>"

text \<open>
  \<open>collect.js\<close>, from \<open>redis.sadd(SEEN_LINK, canon)\<close> to \<open>redis.zadd\<close>: the result
  says whether the member was stored.
\<close>

definition collect_insert :: "bool \<Rightarrow> feed \<Rightarrow> item_locals \<Rightarrow> string \<Rightarrow> store \<Rightarrow> store \<times> bool" where
  "collect_insert ENABLE_SENTIMENT fc it canon st =
     (let (links, addCanon) = sadd (seen_link st) canon
      in if addCanon \<noteq> 1 then (st\<lparr>seen_link := links\<rparr>, False)
         else
           let mid = idFromCanonical canon;
               (ids, _) = sadd (seen_id st) mid;
               m = collect_mention ENABLE_SENTIMENT fc it canon
           in (st\<lparr>seen_link := links, seen_id := ids,
                   zset := zadd (zset st) (l_ts it) m\<rparr>, True))"

definition law360_mention :: "item_locals \<Rightarrow> string \<Rightarrow> mention" where
  "law360_mention it canon =
     \<lparr>m_id = law360_idFromCanonical canon, m_canon = canon, m_section = ''Law360'',
      m_title = or_else (l_title it) ''(untitled)'', m_link = l_link it,
      m_source = ''Law360'', m_summary = l_sum it, m_origin = ''law360'',
      m_published_ts = l_ts it, m_extra = Law360Extra ''Law360'' 0\<rparr>"

text \<open>\<open>law360_collect.js\<close>, the same lines.\<close>

definition law360_insert :: "item_locals \<Rightarrow> string \<Rightarrow> store \<Rightarrow> store \<times> bool" where
  "law360_insert it canon st =
     (let (links, addCanon) = sadd (seen_link st) canon
      in if addCanon \<noteq> 1 then (st\<lparr>seen_link := links\<rparr>, False)
         else
           let mid = law360_idFromCanonical canon;
               (ids, _) = sadd (seen_id st) mid;
               m = law360_mention it canon
           in (st\<lparr>seen_link := links, seen_id := ids,
                   zset := zadd (zset st) (l_ts it) m\<rparr>, True))"

text \<open>How many stored members carry a canonical URL.\<close>

definition copies :: "string \<Rightarrow> store \<Rightarrow> nat" where
  "copies canon st = length (filter (\<lambda>(m, s). m_canon m = canon) (zset st))"

section \<open>The near-duplicate detector\<close>

definition stopWords :: "string list" where
  "stopWords = [''the'', ''a'', ''an'', ''and'', ''or'', ''but'', ''in'', ''on'', ''at'', ''to'',
     ''for'', ''of'', ''with'', ''by'', ''from'', ''as'', ''is'', ''was'', ''are'', ''were'',
     ''been'', ''be'', ''has'', ''have'', ''had'', ''will'', ''would'', ''could'', ''should'',
     ''may'', ''might'', ''must'', ''can'']"

text \<open>
  \<open>normalizeText\<close>: lower case, every character outside \<open>\w\<close> and \<open>\s\<close> becomes a
  space, split at white space, keep the words longer than 3 that are no stop words, join
  with single spaces.
\<close>

definition normalizeText :: "string \<Rightarrow> string" where
  "normalizeText t =
     join '' ''
       (filter (\<lambda>word. length word > 3 \<and> word \<notin> set stopWords)
          (split_ws
             (map (\<lambda>c. if \<not> is_word_char c \<and> \<not> is_space c then CHR '' '' else c)
                (toLowerCase t))))"

text \<open>
  \<open>textSimilarity\<close>: \<open>new Set(xs)\<close> keeps the distinct elements, its \<open>size\<close> is
  their number. The quotient of the two sizes is a double in the source and a rational
  here: for sizes below \<open>2^50\<close> the rounded quotient compares with the double
  \<open>0.6\<close> as the exact quotient compares with \<open>3/5\<close>.
\<close>

definition textSimilarity :: "string \<Rightarrow> string \<Rightarrow> rat" where
  "textSimilarity text1 text2 =
     (let words1 = remdups (split_char (CHR '' '') text1);
          words2 = remdups (split_char (CHR '' '') text2);
          intersection = remdups (filter (\<lambda>x. x \<in> set words2) words1);
          union = remdups (words1 @ words2)
      in of_nat (length intersection) / of_nat (length union))"

text \<open>
  \<open>isDuplicateStory\<close>: the stored members of the last 48 hours, those of the same
  origin, compared one by one; true at the first similarity of at least 0.6.

  The loop hands every member of the reply to \<open>JSON.parse\<close>, inside a \<open>try\<close> whose
  \<open>catch\<close> goes on to the next member. The Redis client is not part of the sources at
  hand, and what its range query answers for a member decides the function:
  \<^item> a client that answers with the member as it was stored, the serialized string: the
    string parses, and the member is compared;
  \<^item> a client that deserializes its replies (the client that the source constructs does
    so unless it is told otherwise) answers with the object: \<open>JSON.parse\<close> of an object
    reads the text \<open>[object Object]\<close> and throws, the member is skipped, and so is every
    other one.
  \<open>deserialized\<close> says which of the two clients it is. The store does not fail, so the
  outer \<open>catch\<close> has no case here.
\<close>

definition isDuplicateStory :: "bool \<Rightarrow> store \<Rightarrow> int \<Rightarrow> string \<Rightarrow> string \<Rightarrow> string \<Rightarrow> bool" where
  "isDuplicateStory deserialized st now_ms title summ origin =
     (let normalizedContent = normalizeText (title @ '' '' @ summ);
          twoDaysAgo = now_ms div 1000 - 48 * 60 * 60;
          recentArticles = zrange_byscore_inf (zset st) twoDaysAgo
      in list_ex (\<lambda>article.
            \<not> deserialized \<and>
            m_origin article = origin \<and>
            textSimilarity normalizedContent
              (normalizeText (m_title article @ '' '' @ m_summary article)) \<ge> 6 / 10)
           recentArticles)"

section \<open>The content filters\<close>

definition pressReleaseKeywords :: "string list" where
  "pressReleaseKeywords = [''prnewswire'', ''pr newswire'', ''business wire'', ''businesswire'',
     ''pr web'', ''prweb'', ''globenewswire'', ''globe newswire'',
     ''accesswire'', ''press release'', ''news release'']"

definition isPressRelease :: "string \<Rightarrow> string \<Rightarrow> string \<Rightarrow> bool" where
  "isPressRelease title summ source =
     (let t = toLowerCase (title @ '' '' @ summ @ '' '' @ source)
      in list_ex (\<lambda>keyword. js_includes t keyword) pressReleaseKeywords)"

definition opinionIndicators :: "string list" where
  "opinionIndicators = [''opinion:'', ''op-ed:'', ''commentary:'', ''editorial:'', ''column:'',
     ''guest column'', ''my view:'', ''viewpoint:'', ''perspective:'',
     ''letter to'', ''letters:'', ''i believe'', ''in my opinion'',
     ''we need to'', ''it'' @ [CHR 0x27] @ ''s time to'', ''why we should'', ''why we must'']"

definition opinionUrlPatterns :: "string list" where
  "opinionUrlPatterns = [''/opinion/'', ''/commentary/'', ''/op-ed/'', ''/editorial/'', ''/columns/'']"

definition shoppingKeywords :: "string list" where
  "shoppingKeywords = [''on sale for'', ''buy now and save'', ''limited time offer'',
     ''shop the collection'', ''shop now'', ''save up to'',
     ''discount code'', ''promo code'', ''coupon code'',
     ''free shipping'', ''best deals'', ''price drop'']"

text \<open>
  \<open>/\$\d+(\.\d{2})?/.test(s)\<close>: the optional group never decides the test, so the
  pattern matches exactly when a dollar sign is followed by a digit.
\<close>

fun hasPrice :: "string \<Rightarrow> bool" where
  "hasPrice (c # d # cs) = ((c = CHR ''$'' \<and> is_digit d) \<or> hasPrice (d # cs))"
| "hasPrice _ = False"

definition stockPriceKeywords :: "string list" where
  "stockPriceKeywords = [''stock price'', ''share price'', ''stock rises'', ''stock falls'', ''stock drops'',
     ''shares rise'', ''shares fall'', ''shares drop'', ''stock jumps'', ''stock climbs'',
     ''trading at'', ''trades at'', ''market cap'', ''stock market'', ''wall street'',
     ''stock analyst'', ''price target'', ''earnings per share'', ''eps'', ''stock ticker'',
     ''nasdaq'', ''nyse'', ''dow jones'', ''stock rallies'', ''stock plunges'',
     ''investors'', ''shareholders'', ''stock performance'', ''quarterly earnings'',
     ''stock rating'', ''buy rating'', ''sell rating'', ''hold rating'',
     ''pre-market'', ''after-hours trading'', ''stock watch'', ''market watch'']"

definition stockFocusedPhrases :: "string list" where
  "stockFocusedPhrases = [''stock up'', ''stock down'', ''shares up'', ''shares down'',
     ''gains on'', ''drops on'', ''stock cheap'', ''stock expensive'',
     ''stock performs'', ''stock move'', ''stock climbs'', ''stock falls'',
     ''stock outlook'', ''stock forecast'', ''stock analysis'', ''stock valuation'']"

definition financialSources :: "string list" where
  "financialSources = [''morningstar'', ''seekingalpha'', ''marketwatch'', ''barrons'',
     ''motley fool'', ''zacks'', ''tipranks'', ''gurufocus'']"

definition incidentKeywords :: "string list" where
  "incidentKeywords = [''incident'', ''crash'', ''emergency'', ''accident'', ''diverted'', ''grounded'',
     ''delayed'', ''cancellation'', ''mechanical issue'', ''safety concern'',
     ''investigation'', ''turbulence'', ''forced landing'', ''engine failure'',
     ''medical emergency'', ''unruly passenger'']"

definition routeKeywords :: "string list" where
  "routeKeywords = [''new route'', ''adds service'', ''launches flight'', ''new destination'',
     ''expands service'', ''adds flight'', ''inaugural flight'', ''direct flight to'',
     ''nonstop service'', ''new nonstop'', ''will fly to'', ''service to'',
     ''announces route'', ''route from'', ''route to'', ''flights to'',
     ''flights from'', ''adding flights'', ''new flights'', ''begins service'',
     ''starts service'', ''route expansion'', ''flight schedule'', ''new service to'',
     ''increases flights'', ''increases service'', ''adds daily flight'',
     ''cuts service'', ''ends operations at'', ''exits market'', ''suspends flights'']"

definition airportSecurityKeywords :: "string list" where
  "airportSecurityKeywords = [''tsa investigating'', ''tsa finds'', ''tsa discovered'', ''tsa checkpoint'',
     ''security checkpoint'', ''airport security'', ''screeners found'',
     ''went through security'', ''hazardous item'', ''weapon found'', ''security breach'']"

definition genericAirlineKeywords :: "string list" where
  "genericAirlineKeywords = [''airlines will not have to'', ''airlines must'', ''airlines face'',
     ''airline industry'', ''aviation industry'', ''carriers including'',
     ''among airlines'', ''airlines like delta'', ''delta and other airlines'',
     ''major airlines'', ''u.s. airlines'', ''domestic carriers'']"

definition faaGenericKeywords :: "string list" where
  "faaGenericKeywords = [''faa ends'', ''faa lifts'', ''faa issues'', ''faa requires'',
     ''flight restriction order'', ''airspace restriction'', ''faa rule'']"

definition geographicKeywords :: "string list" where
  "geographicKeywords = [''albemarle county'', ''albemarle, nc'', ''albemarle north carolina'',
     ''city of albemarle'', ''charlottesville'', ''albemarle sound'',
     ''albemarle road'', ''albemarle st'', ''albemarle street'', ''albemarle ave'',
     ''zoning'', ''rezoning'', ''land use'', ''parcel'', ''planning board'']"

definition ticketBuyingKeywords :: "string list" where
  "ticketBuyingKeywords = [''how to get tickets'', ''how to buy'', ''where to buy tickets'',
     ''ticket guide'', ''buying guide'', ''purchase tickets'', ''get your tickets'',
     ''buy tickets'', ''tickets available'', ''on sale now'', ''tickets on sale'',
     ''cheapest tickets'', ''best way to get'', ''how to find tickets'']"

definition eventFocusedKeywords :: "string list" where
  "eventFocusedKeywords = [''game preview'', ''game recap'', ''match preview'', ''match recap'',
     ''starting lineup'', ''injury report'', ''game day'', ''matchup'',
     ''vs.'', ''vs '', '' v '', '' @ '',
     ''score'', ''final score'', ''box score'', ''play-by-play'',
     ''postgame'', ''pregame'', ''halftime'', ''overtime'',
     ''wins'', ''loses'', ''defeats'', ''beats'', ''victory'', ''defeated'',
     ''touchdown'', ''home run'', ''goal'', ''basket'', ''points scored'',
     ''playoff'', ''championship game'', ''world series'', ''super bowl'',
     ''nba game'', ''nfl game'', ''mlb game'', ''nhl game'', ''mls game'',
     ''sports event'', ''sporting event'', ''game tonight'', ''game tomorrow'',
     ''season opener'', ''season finale'', ''game highlights'', ''game results'',
     ''team wins'', ''team loses'', ''game score'', ''final result'',
     ''concert review'', ''concert recap'', ''setlist'',
     ''performs at'', ''performed at'', ''performance at'',
     ''takes the stage'', ''opening act'', ''headliner'',
     ''tour stops'', ''tour date'', ''concert venue'',
     ''live performance'', ''live show'', ''sold out show'',
     ''encore'', ''acoustic set'', ''concert tonight'', ''concert tomorrow'',
     ''show tonight'', ''show tomorrow'', ''music event'',
     ''event recap'', ''event review'', ''event highlights'',
     ''what happened at'', ''photos from'', ''watch highlights'',
     ''event coverage'', ''event results'', ''event tonight'']"

definition businessKeywords :: "string list" where
  "businessKeywords = [''stubhub fees'', ''stubhub pricing'', ''service charge'', ''platform'',
     ''marketplace'', ''resale'', ''secondary market'',
     ''ticket platform'', ''ticket marketplace'', ''dynamic pricing'',
     ''all-in pricing'', ''transparency'', ''price guarantee'',
     ''ticket protection'', ''fanprotect'', ''customer service'',
     ''refund policy'', ''ticket delivery'', ''mobile tickets'',
     ''stubhub ceo'', ''stubhub lawsuit'', ''stubhub settlement'',
     ''stubhub acquisition'', ''stubhub merger'', ''stubhub revenue'',
     ''stubhub investigation'', ''stubhub probe'', ''watchdog'', ''antitrust'']"

text \<open>\<open>words.some(w => t.includes(w))\<close>.\<close>

definition some_in :: "string list \<Rightarrow> string \<Rightarrow> bool" where
  "some_in ws t = list_ex (\<lambda>w. js_includes t w) ws"

text \<open>The filters of \<open>shouldFilterArticle\<close> that apply to every origin, in their order.\<close>

definition isEarningsSnapshot :: "string \<Rightarrow> bool" where
  "isEarningsSnapshot title =
     (js_includes title ''Earnings Snapshot'' \<or> js_includes title ''Q3 Earnings Snapshot'' \<or>
      js_includes title ''Q4 Earnings Snapshot'' \<or> js_includes title ''Q1 Earnings Snapshot'' \<or>
      js_includes title ''Q2 Earnings Snapshot'')"

definition isOpinion :: "string \<Rightarrow> string \<Rightarrow> bool" where
  "isOpinion title link =
     (let titleLower = toLowerCase title;
          hasOpinionMarker = some_in opinionIndicators titleLower;
          isOpinionUrl = (link \<noteq> [] \<and> some_in opinionUrlPatterns (toLowerCase link))
      in hasOpinionMarker \<or> isOpinionUrl)"

definition isShopping :: "string \<Rightarrow> string \<Rightarrow> bool" where
  "isShopping title summ =
     (let t = toLowerCase (title @ '' '' @ summ);
          titleLower = toLowerCase title;
          hasPriceInTitle = hasPrice titleLower;
          hasShopping = some_in shoppingKeywords t
      in hasShopping \<or> hasPriceInTitle)"

definition isStockArticle :: "string \<Rightarrow> string \<Rightarrow> string \<Rightarrow> bool" where
  "isStockArticle title summ source =
     (let t = toLowerCase (title @ '' '' @ summ);
          titleLower = toLowerCase title;
          stockFocusedInTitle = some_in stockFocusedPhrases titleLower;
          hasStockKeywords = some_in stockPriceKeywords t;
          isFinancialSource = (source \<noteq> [] \<and> some_in financialSources (toLowerCase source))
      in hasStockKeywords \<or> stockFocusedInTitle \<or> (hasStockKeywords \<and> isFinancialSource))"

definition universalFilter :: "string \<Rightarrow> string \<Rightarrow> string \<Rightarrow> string \<Rightarrow> bool" where
  "universalFilter title summ source link =
     (isEarningsSnapshot title \<or> isOpinion title link \<or> isShopping title summ \<or>
      isStockArticle title summ source)"

definition isCorporation :: "string \<Rightarrow> bool" where
  "isCorporation t =
     (js_includes t ''corporation'' \<or> js_includes t ''corp.'' \<or> js_includes t ''company'' \<or>
      js_includes t ''albemarle corp'' \<or> js_includes t '' alb '' \<or> js_includes t ''lithium'' \<or>
      js_includes t ''chemical'' \<or> js_includes t ''kings mountain'' \<or>
      (js_includes t ''charlotte'' \<and> js_includes t ''based''))"

text \<open>
  \<open>shouldFilterArticle\<close>: true means the article is dropped. The universal filters
  return first; then the branch of the origin. The Delta branch falls through to the
  final \<open>return false\<close> when none of its lists matches, as the Albemarle and StubHub
  branches do.
\<close>

definition shouldFilterArticle :: "string \<Rightarrow> string \<Rightarrow> string \<Rightarrow> string \<Rightarrow> string \<Rightarrow> bool" where
  "shouldFilterArticle origin title summ source link =
     (let t = toLowerCase (title @ '' '' @ summ) in
      if isEarningsSnapshot title then True
      else if isOpinion title link then True
      else if isShopping title summ then True
      else if isStockArticle title summ source then True
      else if origin = ''delta_air_lines'' \<and>
              (some_in incidentKeywords t \<or> some_in routeKeywords t \<or>
               some_in airportSecurityKeywords t \<or> some_in genericAirlineKeywords t \<or>
               some_in faaGenericKeywords t) then True
      else if origin = ''guardant_health'' then False
      else if origin = ''albemarle'' \<and> some_in geographicKeywords t then True
      else if origin = ''albemarle'' \<and> \<not> isCorporation t then True
      else if origin = ''stubhub'' \<and> some_in ticketBuyingKeywords t then True
      else if origin = ''stubhub'' \<and> some_in eventFocusedKeywords t \<and> \<not> some_in businessKeywords t
      then True
      else False)"

section \<open>The platform's URL class\<close>

text \<open>
  \<open>new URL(u)\<close>, the getters and setters of the object it returns and its
  \<open>toString\<close> belong to the runtime, not to the sources. The functions of the
  sources that use them take them as a parameter: a record of the operations that the
  sources call, over whatever the runtime's URL objects are.
  \<^item> \<open>URL_new u\<close> is \<open>new URL(u)\<close>, \<open>None\<close> when it throws;
  \<^item> \<open>URL_hostname\<close>, \<open>URL_pathname\<close> and \<open>URL_search\<close> are the getters
    \<open>url.hostname\<close>, \<open>url.pathname\<close> and \<open>url.search\<close>;
  \<^item> \<open>URL_get name\<close> is \<open>url.searchParams.get(name)\<close>, with the empty string for
    \<open>null\<close> (both are falsy, and the sources only read the result through \<open>||\<close>);
  \<^item> \<open>URL_keys\<close> lists \<open>url.searchParams.keys()\<close>;
  \<^item> \<open>URL_delete name\<close> is \<open>url.searchParams.delete(name)\<close>, \<open>URL_clear_hash\<close> is
    \<open>url.hash = ""\<close>, \<open>URL_clear_search\<close> is \<open>url.search = ""\<close> and
    \<open>URL_set_hostname h\<close> is \<open>url.hostname = h\<close>: each returns the object after the
    assignment;
  \<^item> \<open>URL_toString\<close> is \<open>url.toString()\<close>.
\<close>

record 'u platform =
  URL_new :: "string \<Rightarrow> 'u option"
  URL_hostname :: "'u \<Rightarrow> string"
  URL_pathname :: "'u \<Rightarrow> string"
  URL_search :: "'u \<Rightarrow> string"
  URL_get :: "string \<Rightarrow> 'u \<Rightarrow> string"
  URL_keys :: "'u \<Rightarrow> string list"
  URL_delete :: "string \<Rightarrow> 'u \<Rightarrow> 'u"
  URL_clear_hash :: "'u \<Rightarrow> 'u"
  URL_clear_search :: "'u \<Rightarrow> 'u"
  URL_set_hostname :: "string \<Rightarrow> 'u \<Rightarrow> 'u"
  URL_toString :: "'u \<Rightarrow> string"

section \<open>The URL class of the WHATWG standard, on a fragment of its inputs\<close>

text \<open>
  One platform is written out: \<open>url_model\<close> below, after the WHATWG URL standard, on a
  fragment of its input language:
  \<^item> the parser first strips leading and trailing C0 controls and spaces and removes every
    tab and newline;
  \<^item> an input that does not then start with a scheme (a letter, then letters, digits,
    \<open>+\<close>, \<open>-\<close>, \<open>.\<close>, then a colon) fails to parse, as it does in the standard when
    there is no base URL;
  \<^item> of the inputs with a scheme, the model parses \<open>http\<close> and \<open>https\<close> URLs
    \<open>scheme://host path ?query #fragment\<close> with a plain domain as host (labels of
    letters and digits, the last one starting with a letter), a path of letters, digits,
    \<open>/\<close>, \<open>-\<close>, \<open>_\<close>, \<open>~\<close>, and a query whose names and values consist of
    letters, digits, \<open>*\<close>, \<open>-\<close>, \<open>.\<close>, \<open>_\<close>. On these no percent-encoding, IDNA
    mapping, port, credential or dot-segment rule applies, and the model is the standard.
  Every other input with a scheme is outside the fragment: the model answers \<open>None\<close> for
  it where the standard may well parse it, and \<open>url_modelled\<close> below is false. So
  \<open>url_model\<close> stands for the runtime only at inputs on which it is the standard: a
  statement about \<open>url_model\<close> either assumes \<open>url_modelled\<close> of its input or is made
  at a concrete input of that kind, and every statement about the collectors that is meant
  for all items is made for an arbitrary platform.
\<close>

record url =
  u_scheme :: string
  u_hostname :: string
  u_pathname :: string
  u_query :: "string option"
  u_fragment :: "string option"

definition c0_or_space :: "char \<Rightarrow> bool" where
  "c0_or_space c = ((of_char c :: nat) \<le> 32)"

definition tab_or_newline :: "char \<Rightarrow> bool" where
  "tab_or_newline c = ((of_char c :: nat) \<in> {9, 10, 13})"

definition url_strip :: "string \<Rightarrow> string" where
  "url_strip u =
     filter (\<lambda>c. \<not> tab_or_newline c)
       (rev (dropWhile c0_or_space (rev (dropWhile c0_or_space u))))"

definition scheme_char :: "char \<Rightarrow> bool" where
  "scheme_char c = (is_alnum c \<or> c = CHR ''+'' \<or> c = CHR ''-'' \<or> c = CHR ''.'')"

definition has_scheme :: "string \<Rightarrow> bool" where
  "has_scheme s =
     (case s of [] \<Rightarrow> False
      | c # cs \<Rightarrow> is_alpha c \<and>
          (case dropWhile scheme_char cs of [] \<Rightarrow> False | d # ds \<Rightarrow> d = CHR '':''))"

definition host_char :: "char \<Rightarrow> bool" where
  "host_char c = (is_alnum c \<or> c = CHR ''.'')"

definition path_char :: "char \<Rightarrow> bool" where
  "path_char c = (is_alnum c \<or> c = CHR ''/'' \<or> c = CHR ''-'' \<or> c = CHR ''_'' \<or> c = CHR ''~'')"

definition param_char :: "char \<Rightarrow> bool" where
  "param_char c = (is_alnum c \<or> c = CHR ''*'' \<or> c = CHR ''-'' \<or> c = CHR ''.'' \<or> c = CHR ''_'')"

definition valid_host :: "string \<Rightarrow> bool" where
  "valid_host h =
     (list_all host_char h \<and>
      (let labels = split_char (CHR ''.'') h
       in list_all (\<lambda>l. l \<noteq> []) labels \<and> is_alpha (hd (last labels))))"

text \<open>
  The \<open>application/x-www-form-urlencoded\<close> parser and serializer behind
  \<open>url.searchParams\<close>: the query is cut at \<open>&\<close>, empty pieces are dropped, each piece
  is cut at its first \<open>=\<close>.
\<close>

definition split_pair :: "string \<Rightarrow> string \<times> string" where
  "split_pair p = (takeWhile (\<lambda>c. c \<noteq> CHR ''='') p, drop 1 (dropWhile (\<lambda>c. c \<noteq> CHR ''='') p))"

definition parse_query :: "string \<Rightarrow> (string \<times> string) list" where
  "parse_query q = map split_pair (filter (\<lambda>p. p \<noteq> []) (split_char (CHR ''&'') q))"

definition serialize_query :: "(string \<times> string) list \<Rightarrow> string" where
  "serialize_query l = join ''&'' (map (\<lambda>(n, v). n @ ''='' @ v) l)"

definition valid_params :: "(string \<times> string) list \<Rightarrow> bool" where
  "valid_params l = list_all (\<lambda>(n, v). list_all param_char n \<and> list_all param_char v) l"

definition new_URL :: "string \<Rightarrow> url option" where
  "new_URL u =
     (let s = url_strip u;
          sch = toLowerCase (takeWhile (\<lambda>c. c \<noteq> CHR '':'') s);
          rest = dropWhile (\<lambda>c. c \<noteq> CHR '':'') s
      in if \<not> (sch = ''http'' \<or> sch = ''https'') \<or> \<not> prefix ''://'' rest then None
         else
           let r = drop 3 rest;
               h = toLowerCase (takeWhile host_char r);
               r1 = dropWhile host_char r;
               p = takeWhile path_char r1;
               r2 = dropWhile path_char r1;
               q = (case r2 of [] \<Rightarrow> None
                    | c # t \<Rightarrow> if c = CHR ''?'' then Some (takeWhile (\<lambda>c. c \<noteq> CHR ''#'') t) else None);
               r3 = (case r2 of [] \<Rightarrow> []
                     | c # t \<Rightarrow> if c = CHR ''?'' then dropWhile (\<lambda>c. c \<noteq> CHR ''#'') t else r2);
               f = (case r3 of [] \<Rightarrow> None | c # t \<Rightarrow> Some t)
           in if valid_host h \<and> (p = [] \<or> hd p = CHR ''/'') \<and> (r3 = [] \<or> hd r3 = CHR ''#'') \<and>
                 (case q of None \<Rightarrow> True | Some q' \<Rightarrow> valid_params (parse_query q'))
              then Some \<lparr>u_scheme = sch, u_hostname = h,
                          u_pathname = (if p = [] then ''/'' else p),
                          u_query = q, u_fragment = f\<rparr>
              else None)"

definition is_ascii :: "string \<Rightarrow> bool" where
  "is_ascii s = list_all (\<lambda>c. (of_char c :: nat) < 128) s"

text \<open>
  The inputs on which \<open>new_URL\<close> is the parser of the standard: those of 7-bit
  characters that have no scheme (the standard fails on them too) or that the model
  parses.
\<close>

definition url_modelled :: "string \<Rightarrow> bool" where
  "url_modelled u = (is_ascii u \<and> (\<not> has_scheme (url_strip u) \<or> new_URL u \<noteq> None))"

text \<open>\<open>url.toString()\<close>.\<close>

definition url_toString :: "url \<Rightarrow> string" where
  "url_toString url =
     u_scheme url @ ''://'' @ u_hostname url @ u_pathname url @
     (case u_query url of None \<Rightarrow> [] | Some q \<Rightarrow> ''?'' @ q) @
     (case u_fragment url of None \<Rightarrow> [] | Some f \<Rightarrow> ''#'' @ f)"

text \<open>\<open>url.hash = ""\<close> and \<open>url.search = ""\<close> remove the fragment and the query.\<close>

definition clear_hash :: "url \<Rightarrow> url" where
  "clear_hash url = url\<lparr>u_fragment := None\<rparr>"

definition clear_search :: "url \<Rightarrow> url" where
  "clear_search url = url\<lparr>u_query := None\<rparr>"

text \<open>
  \<open>url.searchParams\<close> is the parsed query. Every \<open>delete\<close> ends with the update
  step of the standard, which writes the serialized list back as the query, and no query
  at all when the list is empty. The list is read from the query at each use: inside the
  fragment that is the list the object holds, because parsing a serialized list gives it
  back.
\<close>

definition searchParams :: "url \<Rightarrow> (string \<times> string) list" where
  "searchParams url = parse_query (case u_query url of None \<Rightarrow> [] | Some q \<Rightarrow> q)"

definition searchParams_delete :: "string \<Rightarrow> url \<Rightarrow> url" where
  "searchParams_delete name url =
     (let l = filter (\<lambda>(n, v). n \<noteq> name) (searchParams url);
          serializedQuery = serialize_query l
      in url\<lparr>u_query := (if serializedQuery = [] then None else Some serializedQuery)\<rparr>)"

text \<open>\<open>url.searchParams.get(name)\<close>, with the empty string for \<open>null\<close>.\<close>

definition searchParams_get :: "string \<Rightarrow> url \<Rightarrow> string" where
  "searchParams_get name url =
     (case filter (\<lambda>(n, v). n = name) (searchParams url) of [] \<Rightarrow> [] | (n, v) # _ \<Rightarrow> v)"

text \<open>\<open>url.hostname = h\<close>: an invalid host leaves the URL unchanged.\<close>

definition set_hostname :: "string \<Rightarrow> url \<Rightarrow> url" where
  "set_hostname h url =
     (if valid_host (toLowerCase h) then url\<lparr>u_hostname := toLowerCase h\<rparr> else url)"

text \<open>\<open>url.search\<close>: the empty string when the query is absent or empty.\<close>

definition url_search :: "url \<Rightarrow> string" where
  "url_search url = (case u_query url of None \<Rightarrow> [] | Some q \<Rightarrow> if q = [] then [] else ''?'' @ q)"

definition url_model :: "url platform" where
  "url_model =
     \<lparr>URL_new = new_URL, URL_hostname = u_hostname, URL_pathname = u_pathname,
      URL_search = url_search, URL_get = searchParams_get,
      URL_keys = (\<lambda>url. map fst (searchParams url)), URL_delete = searchParams_delete,
      URL_clear_hash = clear_hash, URL_clear_search = clear_search,
      URL_set_hostname = set_hostname, URL_toString = url_toString\<rparr>"

section \<open>The canonicalizer\<close>

definition tracking_params :: "string list" where
  "tracking_params = [''utm_source'', ''utm_medium'', ''utm_campaign'', ''utm_term'',
     ''utm_content'', ''utm_id'', ''mc_cid'', ''mc_eid'', ''ref'', ''fbclid'', ''gclid'', ''igshid'']"

text \<open>\<open>normalizeUrl\<close> of \<open>collect.js\<close> and \<open>law360_collect.js\<close> (the same text).\<close>

definition normalizeUrl :: "'u platform \<Rightarrow> string \<Rightarrow> string" where
  "normalizeUrl api u =
     (case URL_new api u of
        None \<Rightarrow> trim u
      | Some url0 \<Rightarrow>
          let url1 = URL_clear_hash api url0;
              url2 = fold (URL_delete api) tracking_params url1;
              url3 = (if length (URL_keys api url2) = 0 then URL_clear_search api url2 else url2);
              url4 = URL_set_hostname api (toLowerCase (URL_hostname api url3)) url3;
              s = URL_toString api url4
          in if endsWith s ''/'' then butlast s else s)"




text \<open>
  \<open>normalizeUrl\<close> of the congress tracker: it drops the whole query when
  \<open>url.search\<close> is not the empty string.
\<close>

definition congress_normalizeUrl :: "'u platform \<Rightarrow> string \<Rightarrow> string" where
  "congress_normalizeUrl api u =
     (case URL_new api u of
        None \<Rightarrow> trim u
      | Some url0 \<Rightarrow>
          let url1 = URL_clear_hash api url0;
              url2 = (if URL_search api url1 \<noteq> [] then URL_clear_search api url1 else url1);
              s = URL_toString api url2
          in if endsWith s ''/'' then butlast s else s)"

definition hostOf :: "'u platform \<Rightarrow> string \<Rightarrow> string" where
  "hostOf api u =
     (case URL_new api u of None \<Rightarrow> [] | Some url \<Rightarrow> toLowerCase (URL_hostname api url))"

text \<open>\<open>s.replace(/^k/, "")\<close> for a literal \<open>k\<close>.\<close>

definition strip_prefix :: "string \<Rightarrow> string \<Rightarrow> string" where
  "strip_prefix k s = (if prefix k s then drop (length k) s else s)"

definition normalizeHost :: "string \<Rightarrow> string" where
  "normalizeHost h = strip_prefix ''amp.'' (strip_prefix ''www.'' (toLowerCase h))"

definition displaySource :: "'u platform \<Rightarrow> string \<Rightarrow> string \<Rightarrow> string" where
  "displaySource api link fallback = or_else (normalizeHost (hostOf api link)) fallback"

definition unwrapGoogleAlert :: "'u platform \<Rightarrow> string \<Rightarrow> string" where
  "unwrapGoogleAlert api u =
     (case URL_new api u of
        None \<Rightarrow> u
      | Some url \<Rightarrow>
          if endsWith (URL_hostname api url) ''google.com'' \<and> URL_pathname api url = ''/url''
          then or_else (URL_get api ''q'' url) (or_else (URL_get api ''url'' url) u)
          else u)"

text \<open>\<open>/^https?:\/\//i.test(s)\<close>.\<close>

definition is_http :: "string \<Rightarrow> bool" where
  "is_http s = (prefix ''http://'' (toLowerCase (take 7 s)) \<or> prefix ''https://'' (toLowerCase (take 8 s)))"

definition buildYouTubeWatchUrl :: "string \<Rightarrow> string" where
  "buildYouTubeWatchUrl s0 =
     (let s = trim s0
      in if is_http s then s
         else if length s = 11 \<and> list_all (\<lambda>c. is_alnum c \<or> c = CHR ''_'' \<or> c = CHR ''-'') s
         then ''https://www.youtube.com/watch?v='' @ s
         else s)"

section \<open>Feed items\<close>

text \<open>
  An item as the feed parser hands it over. A missing text field is the empty string
  (the source reads every one of them through \<open>||\<close>). \<open>e.link\<close> may be absent, a
  string, an object with an \<open>href\<close> or an array of such objects; an absent \<open>href\<close>
  is the empty string. \<open>e_links\<close> lists the \<open>href\<close>s of \<open>e.links\<close>, \<open>e_id\<close> is
  \<open>e.id\<close> when it is a string, and \<open>e_date\<close> is \<open>Date.parse\<close> of the first
  non-empty date field when that is finite.
\<close>

datatype link_field = LinkMissing | LinkString string | LinkObject string | LinkArray "string list"

record rss_item =
  e_title :: string
  e_link :: link_field
  e_links :: "string list"
  e_id :: "string option"
  e_yt_videoId :: string
  e_videoId :: string
  e_mediaDescription :: string
  e_media_description :: string
  e_mediaContent_description :: string
  e_contentSnippet :: string
  e_content :: string
  e_summary :: string
  e_description :: string
  e_date :: "int option"

text \<open>The first choice of \<open>extractItemLink\<close>, the same in both collectors.\<close>

definition raw_link :: "rss_item \<Rightarrow> string" where
  "raw_link e =
     (let link_href = (case e_link e of LinkObject h \<Rightarrow> h | _ \<Rightarrow> []);
          link0_href = (case e_link e of LinkArray (h # _) \<Rightarrow> h | _ \<Rightarrow> []);
          links0_href = (case e_links e of h # _ \<Rightarrow> h | [] \<Rightarrow> [])
      in if link_href \<noteq> [] then link_href
         else if link0_href \<noteq> [] then link0_href
         else if links0_href \<noteq> [] then links0_href
         else or_else (case e_link e of LinkString s \<Rightarrow> s | _ \<Rightarrow> [])
                      (case e_id e of Some i \<Rightarrow> i | None \<Rightarrow> []))"

text \<open>The text of \<open>s\<close> before the first occurrence of \<open>k\<close>: \<open>s.split(k)[0]\<close>.\<close>

fun before_sub :: "string \<Rightarrow> string \<Rightarrow> string" where
  "before_sub k [] = []"
| "before_sub k (c # cs) = (if prefix k (c # cs) then [] else c # before_sub k cs)"

text \<open>\<open>extractItemLink\<close> of \<open>collect.js\<close>.\<close>

definition extractItemLink :: "'u platform \<Rightarrow> rss_item \<Rightarrow> string" where
  "extractItemLink api e =
     (let raw = unwrapGoogleAlert api (raw_link e);
          ytId = or_else (e_yt_videoId e) (or_else (e_videoId e)
                   (case e_id e of
                      Some i \<Rightarrow> if startsWith i ''yt:video:''
                                then before_sub ''yt:video:'' (drop (length ''yt:video:'') i)
                                else []
                    | None \<Rightarrow> []));
          raw' = (if \<not> is_http raw \<and> ytId \<noteq> [] then buildYouTubeWatchUrl ytId
                  else let h = hostOf api raw
                       in if js_includes h ''youtube.com'' \<or> js_includes h ''youtu.be''
                          then buildYouTubeWatchUrl raw else raw)
      in trim raw')"

text \<open>\<open>extractItemLink\<close> of \<open>law360_collect.js\<close>.\<close>

definition law360_extractItemLink :: "rss_item \<Rightarrow> string" where
  "law360_extractItemLink e = trim (raw_link e)"

section \<open>The RSS collector\<close>

text \<open>
  \<open>isBlockedDomain\<close> and \<open>isInternationalArticle\<close> are imported from modules that
  are not part of the sources at hand: they are parameters, with the switch
  \<open>ENABLE_SENTIMENT\<close> of the environment and with \<open>client_deserializes\<close>, which
  says whether the Redis client hands back its replies deserialized.
\<close>

record externals =
  isBlockedDomain :: "string \<Rightarrow> bool"
  isInternationalArticle :: "string \<Rightarrow> string \<Rightarrow> string \<Rightarrow> string \<Rightarrow> bool"
  ENABLE_SENTIMENT :: bool
  client_deserializes :: bool

record run =
  r_store :: store
  found :: nat
  stored :: nat

text \<open>The title and the summary of an item, as the loop computes them.\<close>

definition item_title :: "rss_item \<Rightarrow> string" where
  "item_title e = trim (e_title e)"

definition item_sum :: "rss_item \<Rightarrow> string" where
  "item_sum e =
     (let ytDesc = or_else (e_mediaDescription e)
                     (or_else (e_media_description e) (e_mediaContent_description e))
      in or_else ytDesc (or_else (e_contentSnippet e) (or_else (e_content e) (e_summary e))))"

text \<open>
  The body of the item loop of \<open>collect.js\<close>. \<open>now_ms\<close> is the clock; the source
  reads it up to three times while it handles one item, the model once.
\<close>

definition collect_item ::
  "'u platform \<Rightarrow> externals \<Rightarrow> feed \<Rightarrow> string \<Rightarrow> int \<Rightarrow> rss_item \<Rightarrow> run \<Rightarrow> run" where
  "collect_item api ext fc feedTitle now_ms e r =
     (let title = item_title e;
          summ = item_sum e;
          link = extractItemLink api e;
          source = displaySource api link feedTitle
      in if isPressRelease title summ source then r
         else if isBlockedDomain ext link then r
         else if isInternationalArticle ext title summ link source then r
         else if shouldFilterArticle (f_origin fc) title summ source link then r
         else if isDuplicateStory (client_deserializes ext) (r_store r) now_ms title summ
                   (f_origin fc)
         then r\<lparr>found := found r + 1\<rparr>
         else
           let canon = normalizeUrl api (or_else link title)
           in if canon = [] then r
              else
                let it = \<lparr>l_title = title, l_link = link, l_source = source, l_sum = summ,
                          l_ts = toEpoch (e_date e) now_ms\<rparr>;
                    (st, inserted) = collect_insert (ENABLE_SENTIMENT ext) fc it canon (r_store r)
                in if \<not> inserted then r\<lparr>r_store := st\<rparr>
                   else r\<lparr>r_store := retention_trim now_ms st,
                          found := found r + 1, stored := stored r + 1\<rparr>)"

text \<open>One feed: \<open>feedTitle = feed?.title || url\<close>, then the items in order.\<close>

definition collect_feed ::
  "'u platform \<Rightarrow> externals \<Rightarrow> int \<Rightarrow> feed \<Rightarrow> string \<Rightarrow> rss_item list \<Rightarrow> run \<Rightarrow> run" where
  "collect_feed api ext now_ms fc feed_title items r =
     fold (collect_item api ext fc (or_else feed_title (f_url fc)) now_ms) items r"

section \<open>The Law360 collector\<close>

record law360_run =
  lr_store :: store
  lr_found :: nat
  lr_stored :: nat
  lr_skipped :: nat

definition law360_item :: "'u platform \<Rightarrow> int \<Rightarrow> rss_item \<Rightarrow> law360_run \<Rightarrow> law360_run" where
  "law360_item api now_ms e r =
     (let title = trim (e_title e);
          summ = or_else (e_contentSnippet e)
                   (or_else (e_content e) (or_else (e_summary e) (e_description e)));
          link = law360_extractItemLink e
      in if link = [] \<or> title = [] then r\<lparr>lr_skipped := lr_skipped r + 1\<rparr>
         else
           let canon = normalizeUrl api link
           in if canon = [] then r\<lparr>lr_found := lr_found r + 1, lr_skipped := lr_skipped r + 1\<rparr>
              else
                let it = \<lparr>l_title = title, l_link = link, l_source = ''Law360'', l_sum = summ,
                          l_ts = toEpoch (e_date e) now_ms\<rparr>;
                    (st, inserted) = law360_insert it canon (lr_store r)
                in if \<not> inserted
                   then r\<lparr>lr_store := st, lr_found := lr_found r + 1,
                          lr_skipped := lr_skipped r + 1\<rparr>
                   else r\<lparr>lr_store := retention_trim now_ms st,
                          lr_found := lr_found r + 1, lr_stored := lr_stored r + 1\<rparr>)"

section \<open>The congress tracker\<close>

text \<open>
  What one poll fetched: the bill's title, the text and date of its latest action (empty
  when absent), the texts of its actions, the number of amendments. \<open>p_now_iso\<close> is
  \<open>new Date().toISOString()\<close>, the fallback of the action date, and \<open>p_parsed\<close> is
  \<open>Date.parse\<close> of the action date when finite.
\<close>

record poll =
  p_title :: string
  p_latest_text :: string
  p_latest_date :: string
  p_actions :: "string list"
  p_amendments :: nat
  p_now_iso :: string
  p_parsed :: "int option"

definition detectMilestones :: "string list \<Rightarrow> milestones" where
  "detectMilestones actions =
     (let ts = map toLowerCase actions;
          has = (\<lambda>P. list_ex P ts)
      in \<lparr>conference_committee =
            has (\<lambda>t. js_includes t ''conference committee'' \<or> js_includes t ''conferees appointed''),
          conference_report_filed =
            has (\<lambda>t. js_includes t ''conference report filed'' \<or>
                      js_includes t ''conference report submitted''),
          house_vote_scheduled =
            has (\<lambda>t. js_includes t ''house'' \<and>
                      (js_includes t ''scheduled'' \<or> js_includes t ''rule provides'')),
          house_vote_completed =
            has (\<lambda>t. js_includes t ''house'' \<and>
                      (js_includes t ''passed'' \<or> js_includes t ''agreed to'' \<or>
                       js_includes t ''on passage'')),
          senate_vote_scheduled =
            has (\<lambda>t. js_includes t ''senate'' \<and> js_includes t ''scheduled''),
          senate_vote_completed =
            has (\<lambda>t. js_includes t ''senate'' \<and>
                      (js_includes t ''passed'' \<or> js_includes t ''agreed to'')),
          sent_to_president =
            has (\<lambda>t. js_includes t ''presented to president'' \<or> js_includes t ''sent to president''),
          signed_into_law =
            has (\<lambda>t. js_includes t ''signed by president'' \<or> js_includes t ''became public law'')\<rparr>)"

text \<open>The check mark of the milestone list, as its UTF-8 bytes.\<close>

definition check_mark :: string where
  "check_mark = [CHR 0xE2, CHR 0x9C, CHR 0x93]"

definition milestoneList :: "milestones \<Rightarrow> string list" where
  "milestoneList ms =
     (if conference_committee ms then [check_mark @ '' Conference Committee''] else []) @
     (if conference_report_filed ms then [check_mark @ '' Conference Report Filed''] else []) @
     (if house_vote_completed ms then [check_mark @ '' House Vote''] else []) @
     (if senate_vote_completed ms then [check_mark @ '' Senate Vote''] else []) @
     (if sent_to_president ms then [check_mark @ '' Sent to President''] else []) @
     (if signed_into_law ms then [check_mark @ '' SIGNED INTO LAW''] else [])"

text \<open>\<open>String(n)\<close> for a natural number.\<close>

function toString10 :: "nat \<Rightarrow> string" where
  "toString10 n = (if n < 10 then [hex_digit n] else toString10 (n div 10) @ [hex_digit (n mod 10)])"
  by pat_completeness auto
termination
  by (relation "measure id") auto

declare toString10.simps [simp del]

definition billUrl :: string where
  "billUrl = ''https://www.congress.gov/bill/'' @ ''119'' @ ''th-congress/house-bill/'' @ ''3838''"

definition billId :: string where
  "billId = ''HR'' @ '' '' @ ''3838''"

definition congress_mention :: "'u platform \<Rightarrow> poll \<Rightarrow> int \<Rightarrow> mention" where
  "congress_mention api p now_ms =
     (let canon = congress_normalizeUrl api billUrl;
          ms = detectMilestones (p_actions p);
          latestAction = or_else (p_latest_text p) ''No recent action'';
          actionDate = or_else (p_latest_date p) (p_now_iso p);
          ts = toEpoch (p_parsed p) now_ms;
          summary = p_title p @ [CHR 0x0A, CHR 0x0A] @
                    ''Latest Action ('' @ actionDate @ ''): '' @ latestAction @ [CHR 0x0A, CHR 0x0A] @
                    ''Milestones: '' @
                    (if length (milestoneList ms) > 0 then join '' | '' (milestoneList ms)
                     else ''No milestones reached yet'') @ [CHR 0x0A, CHR 0x0A] @
                    ''Amendments: '' @ toString10 (p_amendments p);
          mid = congress_idFromCanonical canon
      in \<lparr>m_id = mid, m_canon = canon, m_section = ''Congress.gov'',
          m_title = billId @ '': '' @ p_title p, m_link = billUrl, m_source = ''Congress.gov'',
          m_summary = summary, m_origin = ''congress'', m_published_ts = ts,
          m_extra = CongressExtra [''congress'', ''hr3838''] billId ''119'' ms (p_amendments p)
                      latestAction actionDate\<rparr>)"

text \<open>
  The handler of the congress tracker once the bill has been fetched: both \<open>sadd\<close>
  results are dropped, and the \<open>zadd\<close> follows in every case.
\<close>

definition congress_handler :: "'u platform \<Rightarrow> poll \<Rightarrow> int \<Rightarrow> store \<Rightarrow> store" where
  "congress_handler api p now_ms st =
     (let m = congress_mention api p now_ms;
          (ids, _) = sadd (seen_id st) (m_id m);
          (links, _) = sadd (seen_link st) (m_canon m);
          st' = st\<lparr>seen_id := ids, seen_link := links,
                   zset := zadd (zset st) (m_published_ts m) m\<rparr>
      in retention_trim now_ms st')"

text \<open>The invariant of the store: no two stored members share a canonical URL.\<close>

definition unique_canon :: "store \<Rightarrow> bool" where
  "unique_canon st = distinct (map (\<lambda>(m, s). m_canon m) (zset st))"

text \<open>
  The invariant the gated producers keep: no two members share a canonical URL, and the
  canonical URL of every member is in the set of seen URLs.
\<close>

definition store_inv :: "store \<Rightarrow> bool" where
  "store_inv st =
     (unique_canon st \<and> (\<forall>(m, s) \<in> set (zset st). m_canon m \<in> seen_link st))"

section \<open>Concrete inputs\<close>

text \<open>
  The inputs at which the statements below are evaluated. Every string that is handed to
  \<open>url_model\<close> at one of them is inside the fragment of the model. \<open>no_externals\<close>
  blocks no domain and no article and has the sentiment switched off; its argument says
  whether the Redis client deserializes its replies.
\<close>

definition no_externals :: "bool \<Rightarrow> externals" where
  "no_externals deserialized =
     \<lparr>isBlockedDomain = (\<lambda>link. False),
      isInternationalArticle = (\<lambda>title summ link source. False),
      ENABLE_SENTIMENT = False, client_deserializes = deserialized\<rparr>"

definition blank_item :: rss_item where
  "blank_item = \<lparr>e_title = [], e_link = LinkMissing, e_links = [], e_id = None,
                  e_yt_videoId = [], e_videoId = [], e_mediaDescription = [],
                  e_media_description = [], e_mediaContent_description = [],
                  e_contentSnippet = [], e_content = [], e_summary = [], e_description = [],
                  e_date = None\<rparr>"

definition new_run :: run where
  "new_run = \<lparr>r_store = empty_store, found = 0, stored = 0\<rparr>"

text \<open>10 June 2025, 00:00 UTC, in milliseconds.\<close>

definition example_now :: int where
  "example_now = 1749513600000"

definition delta_feed :: feed where
  "delta_feed = \<lparr>f_url = ''https://feeds.example.com/delta'', f_origin = ''delta_air_lines'',
                  f_section = ''Delta Air Lines''\<rparr>"

definition delta_title1 :: string where
  "delta_title1 = ''Delta Adds New AI Chatbot for Customer Service''"

definition delta_title2 :: string where
  "delta_title2 = ''Delta Airlines Launches AI-Powered Customer Chatbot''"

definition delta_item1 :: rss_item where
  "delta_item1 = blank_item\<lparr>e_title := delta_title1,
                   e_link := LinkString ''https://news.example.com/delta-chatbot'',
                   e_date := Some (example_now - 3600000)\<rparr>"

definition delta_item2 :: rss_item where
  "delta_item2 = blank_item\<lparr>e_title := delta_title2,
                   e_link := LinkString ''https://other.example.org/delta-ai'',
                   e_date := Some (example_now - 1800000)\<rparr>"

definition guardant_feed :: feed where
  "guardant_feed = \<lparr>f_url = ''https://feeds.example.com/guardant'', f_origin = ''guardant_health'',
                     f_section = ''Guardant Health''\<rparr>"


definition stubhub_title :: string where
  "stubhub_title = ''StubHub resale fees rise before the Super Bowl''"

definition stubhub_summary :: string where
  "stubhub_summary = ''Fans pay more on the marketplace.''"

definition linkless_item :: rss_item where
  "linkless_item = blank_item\<lparr>e_title := ''  Guardant trial enrolls first patient '',
                      e_contentSnippet := ''The trial has started.'',
                      e_date := Some (example_now - 3600000)\<rparr>"

definition example_locals :: item_locals where
  "example_locals = \<lparr>l_title = ''A headline'', l_link = ''https://example.com/a'',
                      l_source = ''example.com'', l_sum = ''A summary'',
                      l_ts = example_now div 1000 - 3600\<rparr>"

definition old_locals :: item_locals where
  "old_locals = example_locals\<lparr>l_ts := example_now div 1000 - 15 * 24 * 60 * 60\<rparr>"

definition boundary_locals :: item_locals where
  "boundary_locals = example_locals\<lparr>l_ts := example_now div 1000 - 14 * 24 * 60 * 60\<rparr>"

definition poll1 :: poll where
  "poll1 = \<lparr>p_title = ''National Defense Authorization Act'',
            p_latest_text = ''Referred to the House Committee on Armed Services.'',
            p_latest_date = ''2025-06-09'', p_actions = [], p_amendments = 0,
            p_now_iso = ''2025-06-10T00:00:00.000Z'', p_parsed = Some 1749427200000\<rparr>"

definition poll2 :: poll where
  "poll2 = poll1\<lparr>p_amendments := 2\<rparr>"

text \<open>Two items of one origin whose titles consist of short words only.\<close>

definition short_locals :: item_locals where
  "short_locals = \<lparr>l_title = ''AI is up'', l_link = ''https://example.com/ai'',
                    l_source = ''example.com'', l_sum = [],
                    l_ts = example_now div 1000 - 3600\<rparr>"

definition short_store :: store where
  "short_store = fst (collect_insert False guardant_feed short_locals ''https://example.com/ai''
                        empty_store)"

text \<open>
  The two Delta items, handled one after the other from an empty store, with either
  client.
\<close>

definition delta_run1 :: "bool \<Rightarrow> run" where
  "delta_run1 deserialized =
     collect_item url_model (no_externals deserialized) delta_feed ''Delta News'' example_now
       delta_item1 new_run"

definition delta_run2 :: "bool \<Rightarrow> run" where
  "delta_run2 deserialized =
     collect_item url_model (no_externals deserialized) delta_feed ''Delta News'' example_now
       delta_item2 (delta_run1 deserialized)"

text \<open>Two polls of the congress tracker from an empty store.\<close>

definition congress_store1 :: store where
  "congress_store1 = congress_handler url_model poll1 example_now empty_store"

definition congress_store2 :: store where
  "congress_store2 = congress_handler url_model poll2 example_now congress_store1"

section \<open>Facts about the store\<close>

lemma collect_insert_seen:
  "canon \<in> seen_link st \<Longrightarrow> collect_insert es fc it canon st = (st, False)"
  by (simp add: collect_insert_def sadd_def)

lemma law360_insert_seen:
  "canon \<in> seen_link st \<Longrightarrow> law360_insert it canon st = (st, False)"
  by (simp add: law360_insert_def sadd_def)

lemma zadd_fresh:
  "\<forall>(m, s) \<in> set z. m_canon m \<noteq> m_canon member \<Longrightarrow> zadd z score member = z @ [(member, score)]"
  by (auto simp: zadd_def)

lemma copies_fresh:
  "\<forall>(m, s) \<in> set z. m_canon m \<noteq> canon \<Longrightarrow> filter (\<lambda>(m, s). m_canon m = canon) z = []"
  by (induction z) auto

lemma collect_insert_fresh:
  assumes "canon \<notin> seen_link st" and "\<forall>(m, s) \<in> set (zset st). m_canon m \<noteq> canon"
  shows "collect_insert es fc it canon st =
           (st\<lparr>seen_link := insert canon (seen_link st),
               seen_id := insert (idFromCanonical canon) (seen_id st),
               zset := zset st @ [(collect_mention es fc it canon, l_ts it)]\<rparr>, True)"
proof -
  have "zadd (zset st) (l_ts it) (collect_mention es fc it canon)
          = zset st @ [(collect_mention es fc it canon, l_ts it)]"
    using assms(2) by (intro zadd_fresh) (simp add: collect_mention_def)
  then show ?thesis
    using assms(1) by (auto simp: collect_insert_def sadd_def Let_def insert_absorb)
qed

lemma law360_insert_fresh:
  assumes "canon \<notin> seen_link st" and "\<forall>(m, s) \<in> set (zset st). m_canon m \<noteq> canon"
  shows "law360_insert it canon st =
           (st\<lparr>seen_link := insert canon (seen_link st),
               seen_id := insert (law360_idFromCanonical canon) (seen_id st),
               zset := zset st @ [(law360_mention it canon, l_ts it)]\<rparr>, True)"
proof -
  have "zadd (zset st) (l_ts it) (law360_mention it canon)
          = zset st @ [(law360_mention it canon, l_ts it)]"
    using assms(2) by (intro zadd_fresh) (simp add: law360_mention_def)
  then show ?thesis
    using assms(1) by (auto simp: law360_insert_def sadd_def Let_def insert_absorb)
qed

section \<open>Exact deduplication\<close>

text \<open>
  C2. Starting from a store that has not seen the canonical URL, the first insertion
  step stores the serialized mention at the score \<open>published_ts\<close>; a second insertion
  step with the same canonical URL (whatever the other fields) reports that nothing was
  inserted and leaves the sorted set and both sets as they were, so that exactly one
  member carries the canonical URL. This holds in the RSS collector and in the Law360
  collector.
\<close>

theorem insert_twice_one_copy:
  assumes "canon \<notin> seen_link st"
    and "\<forall>(m, s) \<in> set (zset st). m_canon m \<noteq> canon"
  shows "(case collect_insert es fc it canon st of (st1, r1) \<Rightarrow>
            r1 \<and> zset st1 = zset st @ [(collect_mention es fc it canon,
                                         m_published_ts (collect_mention es fc it canon))] \<and>
            (case collect_insert es' fc' it' canon st1 of (st2, r2) \<Rightarrow>
               \<not> r2 \<and> st2 = st1 \<and> copies canon st2 = 1)) \<and>
         (case law360_insert it canon st of (st1, r1) \<Rightarrow>
            r1 \<and> zset st1 = zset st @ [(law360_mention it canon,
                                         m_published_ts (law360_mention it canon))] \<and>
            (case law360_insert it' canon st1 of (st2, r2) \<Rightarrow>
               \<not> r2 \<and> st2 = st1 \<and> copies canon st2 = 1))"
proof -
  have none: "filter (\<lambda>(m, s). m_canon m = canon) (zset st) = []"
    using assms(2) by (rule copies_fresh)
  have a: "collect_insert es' fc' it' canon
             (st\<lparr>seen_link := insert canon (seen_link st),
                 seen_id := insert (idFromCanonical canon) (seen_id st),
                 zset := zset st @ [(collect_mention es fc it canon, l_ts it)]\<rparr>)
           = (st\<lparr>seen_link := insert canon (seen_link st),
                 seen_id := insert (idFromCanonical canon) (seen_id st),
                 zset := zset st @ [(collect_mention es fc it canon, l_ts it)]\<rparr>, False)"
    by (rule collect_insert_seen) simp
  have b: "law360_insert it' canon
             (st\<lparr>seen_link := insert canon (seen_link st),
                 seen_id := insert (law360_idFromCanonical canon) (seen_id st),
                 zset := zset st @ [(law360_mention it canon, l_ts it)]\<rparr>)
           = (st\<lparr>seen_link := insert canon (seen_link st),
                 seen_id := insert (law360_idFromCanonical canon) (seen_id st),
                 zset := zset st @ [(law360_mention it canon, l_ts it)]\<rparr>, False)"
    by (rule law360_insert_seen) simp
  have c: "m_canon (collect_mention es fc it canon) = canon"
          "m_published_ts (collect_mention es fc it canon) = l_ts it"
          "m_canon (law360_mention it canon) = canon"
          "m_published_ts (law360_mention it canon) = l_ts it"
    by (simp_all add: collect_mention_def law360_mention_def)
  show ?thesis
    by (simp add: collect_insert_fresh [OF assms] law360_insert_fresh [OF assms] a b c
        copies_def none)
qed

theorem insert_twice_one_copy_witness:
  "''https://example.com/a'' \<notin> seen_link empty_store \<and>
   zset empty_store = [] \<and>
   ((case collect_insert False delta_feed example_locals ''https://example.com/a'' empty_store of
       (st1, r1) \<Rightarrow>
         r1 \<and> zset st1 = zset empty_store @
                 [(collect_mention False delta_feed example_locals ''https://example.com/a'',
                   m_published_ts (collect_mention False delta_feed example_locals
                                     ''https://example.com/a''))] \<and>
         (case collect_insert True guardant_feed old_locals ''https://example.com/a'' st1 of
            (st2, r2) \<Rightarrow> \<not> r2 \<and> st2 = st1 \<and> copies ''https://example.com/a'' st2 = 1)) \<and>
    (case law360_insert example_locals ''https://example.com/a'' empty_store of
       (st1, r1) \<Rightarrow>
         r1 \<and> zset st1 = zset empty_store @
                 [(law360_mention example_locals ''https://example.com/a'',
                   m_published_ts (law360_mention example_locals ''https://example.com/a''))] \<and>
         (case law360_insert old_locals ''https://example.com/a'' st1 of
            (st2, r2) \<Rightarrow> \<not> r2 \<and> st2 = st1 \<and> copies ''https://example.com/a'' st2 = 1)))"
proof -
  have h1: "''https://example.com/a'' \<notin> seen_link empty_store"
    by (simp add: empty_store_def)
  have h2: "\<forall>(m, s) \<in> set (zset empty_store). m_canon m \<noteq> ''https://example.com/a''"
    by (simp add: empty_store_def)
  have h3: "zset empty_store = []"
    by (simp add: empty_store_def)
  show ?thesis
    by (rule conjI, rule h1, rule conjI, rule h3, rule insert_twice_one_copy [OF h1 h2])
qed

section \<open>Retention\<close>

lemma retention_trim_sets:
  "seen_id (retention_trim now_ms st) = seen_id st \<and>
   seen_link (retention_trim now_ms st) = seen_link st"
  by (simp add: retention_trim_def Let_def)

lemma retention_trim_zset:
  "zset (retention_trim now_ms st) =
     filter (\<lambda>(m, s). now_ms div 1000 - 14 * 24 * 60 * 60 < s) (zset st)"
proof -
  have "(\<lambda>(m :: mention, s :: int). \<not> s \<le> now_ms div 1000 - 14 * 24 * 60 * 60) =
        (\<lambda>(m, s). now_ms div 1000 - 14 * 24 * 60 * 60 < s)"
    by (simp add: fun_eq_iff not_le)
  then show ?thesis
    by (simp add: retention_trim_def Let_def zremrangebyscore_neg_inf_def RETENTION_DAYS_def)
qed

text \<open>
  C8, as the claim states it, fails at the boundary: a member whose score equals the
  cutoff is not below the cutoff, and the trim deletes it.
\<close>

theorem trim_at_cutoff_counterexample:
  "\<not> l_ts boundary_locals < example_now div 1000 - RETENTION_DAYS * 24 * 60 * 60 \<and>
   zset (fst (collect_insert False delta_feed boundary_locals ''https://example.com/a'' empty_store))
     = [(collect_mention False delta_feed boundary_locals ''https://example.com/a'',
         l_ts boundary_locals)] \<and>
   zset (retention_trim example_now
          (fst (collect_insert False delta_feed boundary_locals ''https://example.com/a''
                  empty_store))) = []"
  by (simp add: collect_insert_def sadd_def zadd_def empty_store_def retention_trim_def
      zremrangebyscore_neg_inf_def RETENTION_DAYS_def boundary_locals_def example_locals_def
      example_now_def Let_def)

text \<open>
  C8, amended. The trim deletes exactly the members of the sorted set whose score is at
  or below the cutoff \<open>now - 14 days\<close> and leaves both dedup sets unchanged. So when a
  mention published 15 days ago has been inserted for a new canonical URL and the trim has
  run, a range query over the last 14 days does not return it, and its canonical URL is
  still in the set of seen URLs.
\<close>

theorem retention_trim_frame:
  "seen_id (retention_trim now_ms st) = seen_id st \<and>
   seen_link (retention_trim now_ms st) = seen_link st \<and>
   zset (retention_trim now_ms st) =
     filter (\<lambda>(m, s). now_ms div 1000 - 14 * 24 * 60 * 60 < s) (zset st) \<and>
   (canon \<notin> seen_link st \<longrightarrow> (\<forall>(m, s) \<in> set (zset st). m_canon m \<noteq> canon) \<longrightarrow>
    l_ts it = now_ms div 1000 - 15 * 24 * 60 * 60 \<longrightarrow>
      collect_mention es fc it canon \<notin>
        set (zrange_byscore
               (zset (retention_trim now_ms (fst (collect_insert es fc it canon st))))
               (now_ms div 1000 - 14 * 24 * 60 * 60) (now_ms div 1000)) \<and>
      canon \<in> seen_link (retention_trim now_ms (fst (collect_insert es fc it canon st))))"
proof -
  have ex: "collect_mention es fc it canon \<notin>
        set (zrange_byscore
               (zset (retention_trim now_ms (fst (collect_insert es fc it canon st))))
               (now_ms div 1000 - 14 * 24 * 60 * 60) (now_ms div 1000)) \<and>
      canon \<in> seen_link (retention_trim now_ms (fst (collect_insert es fc it canon st)))"
    if fresh: "canon \<notin> seen_link st" "\<forall>(m, s) \<in> set (zset st). m_canon m \<noteq> canon"
      and old: "l_ts it = now_ms div 1000 - 15 * 24 * 60 * 60"
  proof -
    have c: "m_canon (collect_mention es fc it canon) = canon"
      by (simp add: collect_mention_def)
    have "collect_mention es fc it canon \<notin> fst ` set (zset st)"
      using fresh(2) c by force
    then show ?thesis
      using old
      by (auto simp: collect_insert_fresh [OF fresh] retention_trim_zset retention_trim_sets
          zrange_byscore_def)
  qed
  show ?thesis
    using ex retention_trim_sets [of now_ms st] retention_trim_zset [of now_ms st] by blast
qed

theorem retention_trim_frame_witness:
  "''https://example.com/a'' \<notin> seen_link empty_store \<and>
   zset empty_store = [] \<and>
   l_ts old_locals = example_now div 1000 - 15 * 24 * 60 * 60 \<and>
   collect_mention False delta_feed old_locals ''https://example.com/a'' \<notin>
     set (zrange_byscore
            (zset (retention_trim example_now
                     (fst (collect_insert False delta_feed old_locals ''https://example.com/a''
                             empty_store))))
            (example_now div 1000 - 14 * 24 * 60 * 60) (example_now div 1000)) \<and>
   ''https://example.com/a'' \<in>
     seen_link (retention_trim example_now
                  (fst (collect_insert False delta_feed old_locals ''https://example.com/a''
                          empty_store)))"
proof -
  have h1: "''https://example.com/a'' \<notin> seen_link empty_store"
    by (simp add: empty_store_def)
  have h2: "\<forall>(m, s) \<in> set (zset empty_store). m_canon m \<noteq> ''https://example.com/a''"
    by (simp add: empty_store_def)
  have h3: "l_ts old_locals = example_now div 1000 - 15 * 24 * 60 * 60"
    by (simp add: old_locals_def)
  have h4: "zset empty_store = []"
    by (simp add: empty_store_def)
  show ?thesis
    using h1 h2 h3 h4
      retention_trim_frame [of example_now empty_store "''https://example.com/a''" old_locals
        False delta_feed]
    by blast
qed

section \<open>Mention ids across the producers\<close>

text \<open>
  C9, as the claim states it, fails: for one canonical URL the RSS collector and the
  Law360 collector build different ids.
\<close>

theorem id_across_producers_counterexample:
  "m_canon (collect_mention False delta_feed example_locals ''https://example.com/a'') =
     m_canon (law360_mention example_locals ''https://example.com/a'') \<and>
   m_id (collect_mention False delta_feed example_locals ''https://example.com/a'') \<noteq>
     m_id (law360_mention example_locals ''https://example.com/a'')"
  by (simp add: collect_mention_def law360_mention_def idFromCanonical_def
      law360_idFromCanonical_def)

text \<open>
  C9, amended. Within one producer the id is a function of the canonical URL alone: two
  mentions of the same producer with equal canonical URLs have equal ids. Every producer
  computes the same 32-bit hash of the canonical URL, written in hexadecimal, and puts its
  own prefix in front (\<open>m_\<close>, \<open>law360_\<close>, \<open>congress_\<close>), so ids of different producers
  never coincide.
\<close>

theorem id_of_canon_per_producer:
  "(m_canon (collect_mention es fc it c) = m_canon (collect_mention es' fc' it' c') \<longrightarrow>
      m_id (collect_mention es fc it c) = m_id (collect_mention es' fc' it' c')) \<and>
   (m_canon (law360_mention it c) = m_canon (law360_mention it' c') \<longrightarrow>
      m_id (law360_mention it c) = m_id (law360_mention it' c')) \<and>
   (m_canon (congress_mention api p now_ms) = m_canon (congress_mention api p' now_ms') \<longrightarrow>
      m_id (congress_mention api p now_ms) = m_id (congress_mention api p' now_ms')) \<and>
   m_id (collect_mention es fc it c) = ''m_'' @ toString16 (canon_hash c) \<and>
   m_id (law360_mention it c) = ''law360_'' @ toString16 (canon_hash c) \<and>
   m_id (congress_mention api p now_ms) =
     ''congress_'' @ toString16 (canon_hash (m_canon (congress_mention api p now_ms))) \<and>
   m_id (collect_mention es fc it c) \<noteq> m_id (law360_mention it' c') \<and>
   m_id (collect_mention es fc it c) \<noteq> m_id (congress_mention api p now_ms) \<and>
   m_id (law360_mention it c) \<noteq> m_id (congress_mention api p now_ms)"
  by (simp add: collect_mention_def law360_mention_def congress_mention_def Let_def
      idFromCanonical_def law360_idFromCanonical_def congress_idFromCanonical_def)

theorem id_of_canon_per_producer_witness:
  "m_canon (collect_mention False delta_feed example_locals ''https://example.com/a'') =
     m_canon (collect_mention True guardant_feed old_locals ''https://example.com/a'') \<and>
   m_id (collect_mention False delta_feed example_locals ''https://example.com/a'') =
     m_id (collect_mention True guardant_feed old_locals ''https://example.com/a'') \<and>
   m_canon (law360_mention example_locals ''https://example.com/a'') =
     m_canon (law360_mention old_locals ''https://example.com/a'') \<and>
   m_id (law360_mention example_locals ''https://example.com/a'') =
     m_id (law360_mention old_locals ''https://example.com/a'') \<and>
   m_canon (congress_mention url_model poll1 example_now) =
     m_canon (congress_mention url_model poll2 example_now) \<and>
   m_id (congress_mention url_model poll1 example_now) =
     m_id (congress_mention url_model poll2 example_now)"
proof -
  have h1: "m_canon (collect_mention False delta_feed example_locals ''https://example.com/a'') =
     m_canon (collect_mention True guardant_feed old_locals ''https://example.com/a'')"
    by (simp add: collect_mention_def)
  have h2: "m_canon (law360_mention example_locals ''https://example.com/a'') =
     m_canon (law360_mention old_locals ''https://example.com/a'')"
    by (simp add: law360_mention_def)
  have h3: "m_canon (congress_mention url_model poll1 example_now) =
     m_canon (congress_mention url_model poll2 example_now)"
    by (simp add: congress_mention_def Let_def)
  show ?thesis
    using h1 h2 h3
      id_of_canon_per_producer [where es = False and fc = delta_feed and it = example_locals
        and c = "''https://example.com/a''" and es' = True and fc' = guardant_feed
        and it' = old_locals and c' = "''https://example.com/a''" and p = poll1
        and now_ms = example_now and p' = poll2 and now_ms' = example_now
        and api = url_model]
    by blast
qed

section \<open>The similarity of two texts\<close>

lemma set_filter_member: "set (filter (\<lambda>x. x \<in> set ys) xs) = set xs \<inter> set ys"
  by auto

text \<open>
  \<open>textSimilarity\<close> is the Jaccard index of the two sets of pieces that
  \<open>split(' ')\<close> returns, and it lies between 0 and 1: the union is never empty, because
  \<open>split\<close> returns at least one piece.
\<close>

lemma textSimilarity_jaccard:
  "textSimilarity a b =
     of_nat (card (set (split_char (CHR '' '') a) \<inter> set (split_char (CHR '' '') b))) /
     of_nat (card (set (split_char (CHR '' '') a) \<union> set (split_char (CHR '' '') b)))"
proof -
  have "length (remdups (filter (\<lambda>x. x \<in> set (remdups ys)) (remdups xs))) = card (set xs \<inter> set ys)"
    for xs ys :: "string list"
    unfolding length_remdups_card_conv set_filter_member by simp
  moreover have "length (remdups (remdups xs @ remdups ys)) = card (set xs \<union> set ys)"
    for xs ys :: "string list"
    unfolding length_remdups_card_conv by simp
  ultimately show ?thesis
    unfolding textSimilarity_def Let_def by simp
qed

lemma split_acc_nonempty: "split_acc sep cur s \<noteq> []"
  by (induction s arbitrary: cur) auto

lemma textSimilarity_range: "0 \<le> textSimilarity a b \<and> textSimilarity a b \<le> 1"
proof -
  let ?A = "set (split_char (CHR '' '') a)" and ?B = "set (split_char (CHR '' '') b)"
  have "card (?A \<inter> ?B) \<le> card (?A \<union> ?B)"
    by (intro card_mono) auto
  moreover have "?A \<noteq> {}"
    by (simp add: split_char_def split_acc_nonempty)
  then have "0 < card (?A \<union> ?B)"
    by (simp add: card_gt_0_iff)
  ultimately show ?thesis
    by (simp add: textSimilarity_jaccard)
qed

lemma normalizeText_short1: "normalizeText ''AI is up '' = []"
  by code_simp

lemma normalizeText_short2: "normalizeText ''Up or out '' = []"
  by code_simp

lemma textSimilarity_empty: "textSimilarity [] [] = 1"
  by (simp add: textSimilarity_def split_char_def)

text \<open>
  C4 at the input the code mishandles. Both texts normalize to the empty string;
  \<open>split(' ')\<close> of the empty string is one empty piece, so both sets are the set of
  the empty string and the similarity is 1, not 0. With a client that answers with the
  stored strings, a stored item and a new item of the same origin whose titles have no
  key word are therefore reported as duplicates; with a client that deserializes its
  replies no member is compared, and nothing is reported.
\<close>

theorem similarity_of_empty_texts:
  "normalizeText (''AI is up'' @ '' '' @ []) = [] \<and>
   normalizeText (''Up or out'' @ '' '' @ []) = [] \<and>
   textSimilarity [] [] = 1 \<and>
   isDuplicateStory False short_store example_now ''Up or out'' [] ''guardant_health'' \<and>
   \<not> isDuplicateStory True short_store example_now ''Up or out'' [] ''guardant_health''"
  by (simp add: normalizeText_short1 normalizeText_short2 textSimilarity_empty
      isDuplicateStory_def short_store_def collect_insert_def sadd_def zadd_def empty_store_def
      collect_mention_def zrange_byscore_inf_def short_locals_def guardant_feed_def
      example_now_def or_else_def Let_def)

section \<open>The near-duplicate example\<close>

lemma normalizeText_delta1:
  "normalizeText ''Delta Adds New AI Chatbot for Customer Service '' =
     ''delta adds chatbot customer service''"
  by code_simp

lemma normalizeText_delta2:
  "normalizeText ''Delta Airlines Launches AI-Powered Customer Chatbot '' =
     ''delta airlines launches powered customer chatbot''"
  by code_simp

lemma textSimilarity_delta:
  "textSimilarity ''delta airlines launches powered customer chatbot''
     ''delta adds chatbot customer service'' = 3 / 8"
  by code_simp

lemma delta_item1_title: "item_title delta_item1 = ''Delta Adds New AI Chatbot for Customer Service''"
  by code_simp

lemma delta_item1_sum: "item_sum delta_item1 = []"
  by code_simp

lemma delta_item1_link: "extractItemLink url_model delta_item1 = ''https://news.example.com/delta-chatbot''"
  by code_simp

lemma delta_item1_source:
  "displaySource url_model ''https://news.example.com/delta-chatbot'' ''Delta News'' = ''news.example.com''"
  by code_simp

lemma delta_item1_canon:
  "normalizeUrl url_model ''https://news.example.com/delta-chatbot'' = ''https://news.example.com/delta-chatbot''"
  by code_simp

lemma delta_item1_date: "e_date delta_item1 = Some (example_now - 3600000)"
  by (simp add: delta_item1_def)

lemma delta_item2_title: "item_title delta_item2 = ''Delta Airlines Launches AI-Powered Customer Chatbot''"
  by code_simp

lemma delta_item2_sum: "item_sum delta_item2 = []"
  by code_simp

lemma delta_item2_link: "extractItemLink url_model delta_item2 = ''https://other.example.org/delta-ai''"
  by code_simp

lemma delta_item2_source:
  "displaySource url_model ''https://other.example.org/delta-ai'' ''Delta News'' = ''other.example.org''"
  by code_simp

lemma delta_item2_canon:
  "normalizeUrl url_model ''https://other.example.org/delta-ai'' = ''https://other.example.org/delta-ai''"
  by code_simp

lemma delta_item2_date: "e_date delta_item2 = Some (example_now - 1800000)"
  by (simp add: delta_item2_def)

lemma delta_item1_press: "\<not> isPressRelease ''Delta Adds New AI Chatbot for Customer Service'' [] ''news.example.com''"
  by code_simp

lemma delta_item1_filter:
  "\<not> shouldFilterArticle ''delta_air_lines'' ''Delta Adds New AI Chatbot for Customer Service'' [] ''news.example.com''
       ''https://news.example.com/delta-chatbot''"
  by code_simp

lemma delta_item2_press: "\<not> isPressRelease ''Delta Airlines Launches AI-Powered Customer Chatbot'' [] ''other.example.org''"
  by code_simp

lemma delta_item2_filter:
  "\<not> shouldFilterArticle ''delta_air_lines'' ''Delta Airlines Launches AI-Powered Customer Chatbot'' [] ''other.example.org''
       ''https://other.example.org/delta-ai''"
  by code_simp

lemma delta_links_modelled:
  "url_modelled (raw_link delta_item1) \<and> url_modelled (raw_link delta_item2) \<and>
   extractItemLink url_model delta_item1 = raw_link delta_item1 \<and>
   extractItemLink url_model delta_item2 = raw_link delta_item2"
  by code_simp

lemma delta_run1_value:
  "delta_run1 deserialized =
     \<lparr>r_store =
        \<lparr>zset = [(collect_mention False delta_feed
                    \<lparr>l_title = ''Delta Adds New AI Chatbot for Customer Service'', l_link = ''https://news.example.com/delta-chatbot'',
                      l_source = ''news.example.com'', l_sum = [], l_ts = 1749510000\<rparr>
                    ''https://news.example.com/delta-chatbot'', 1749510000)],
         seen_id = {idFromCanonical ''https://news.example.com/delta-chatbot''},
         seen_link = {''https://news.example.com/delta-chatbot''}\<rparr>,
      found = 1, stored = 1\<rparr>"
  by (simp add: delta_run1_def collect_item_def delta_item1_title delta_item1_sum delta_item1_link
      delta_item1_source delta_item1_canon delta_item1_date delta_item1_press delta_item1_filter
      no_externals_def new_run_def empty_store_def delta_feed_def isDuplicateStory_def
      zrange_byscore_inf_def collect_insert_def sadd_def zadd_def retention_trim_def
      zremrangebyscore_neg_inf_def RETENTION_DAYS_def toEpoch_def example_now_def or_else_def
      Let_def)

lemma delta_not_duplicate:
  "\<not> isDuplicateStory deserialized (r_store (delta_run1 deserialized)) example_now delta_title2 []
       ''delta_air_lines''"
  by (simp add: delta_run1_value isDuplicateStory_def zrange_byscore_inf_def collect_mention_def
      delta_feed_def delta_title1_def delta_title2_def or_else_def normalizeText_delta1
      normalizeText_delta2 textSimilarity_delta example_now_def Let_def)

text \<open>
  C5, as the claim states it, fails: with empty summaries the similarity of the two
  normalized contents is below 0.6, and \<open>isDuplicateStory\<close> is false for the second
  item when the first is stored, with either client.
\<close>

theorem delta_similarity_counterexample:
  "\<not> 6 / 10 \<le> textSimilarity (normalizeText (delta_title2 @ '' '' @ []))
                  (normalizeText (delta_title1 @ '' '' @ [])) \<and>
   \<not> isDuplicateStory False (r_store (delta_run1 False)) example_now delta_title2 []
       ''delta_air_lines'' \<and>
   \<not> isDuplicateStory True (r_store (delta_run1 True)) example_now delta_title2 []
       ''delta_air_lines''"
  using delta_not_duplicate [of False] delta_not_duplicate [of True]
  by (simp add: delta_title1_def delta_title2_def normalizeText_delta1 normalizeText_delta2
      textSimilarity_delta)

text \<open>
  C5, amended. The two titles normalize to five and six key words, three of them shared:
  the similarity is 3/8. With the first item stored within the last 48 hours under the
  same origin, \<open>isDuplicateStory\<close> is false for the second, and the collector stores
  both items. This holds with a client that answers with the stored strings and with one
  that deserializes its replies.
\<close>

theorem delta_example_stored:
  "textSimilarity (normalizeText (delta_title2 @ '' '' @ []))
     (normalizeText (delta_title1 @ '' '' @ [])) = 3 / 8 \<and>
   \<not> isDuplicateStory deserialized (r_store (delta_run1 deserialized)) example_now delta_title2 []
       ''delta_air_lines'' \<and>
   found (delta_run2 deserialized) = 2 \<and> stored (delta_run2 deserialized) = 2 \<and>
   map (\<lambda>(m, s). m_title m) (zset (r_store (delta_run2 deserialized))) =
     [delta_title1, delta_title2]"
proof -
  have sim: "textSimilarity (normalizeText (delta_title2 @ '' '' @ []))
     (normalizeText (delta_title1 @ '' '' @ [])) = 3 / 8"
    by (simp add: delta_title1_def delta_title2_def normalizeText_delta1 normalizeText_delta2
        textSimilarity_delta)
  have run2: "found (delta_run2 deserialized) = 2 \<and> stored (delta_run2 deserialized) = 2 \<and>
      map (\<lambda>(m, s). m_title m) (zset (r_store (delta_run2 deserialized))) =
        [delta_title1, delta_title2]"
    using delta_not_duplicate [of deserialized]
    by (simp add: delta_run2_def collect_item_def delta_item2_title delta_item2_sum
        delta_item2_link delta_item2_source delta_item2_canon delta_item2_date delta_item2_press
        delta_item2_filter no_externals_def delta_feed_def collect_insert_def sadd_def zadd_def
        retention_trim_def zremrangebyscore_neg_inf_def RETENTION_DAYS_def toEpoch_def
        example_now_def or_else_def Let_def delta_run1_value collect_mention_def
        delta_title1_def delta_title2_def)
  show ?thesis
    using sim delta_not_duplicate [of deserialized] run2 by blast
qed

section \<open>The invariant of the gated producers\<close>

text \<open>
  The insertion steps of the RSS collector and of the Law360 collector store a member only
  after \<open>sadd\<close> has answered 1 for its canonical URL, and the set of seen URLs never
  shrinks: both item loops keep the invariant.
\<close>

lemma store_inv_empty: "store_inv empty_store"
  by (simp add: store_inv_def unique_canon_def empty_store_def)

lemma store_inv_fresh:
  assumes "store_inv st" and "canon \<notin> seen_link st"
  shows "\<forall>(m, s) \<in> set (zset st). m_canon m \<noteq> canon"
  using assms by (auto simp: store_inv_def)

lemma store_inv_append:
  assumes "store_inv st" and "canon \<notin> seen_link st" and "m_canon m = canon"
  shows "store_inv (st\<lparr>seen_link := insert canon (seen_link st), seen_id := ids,
                       zset := zset st @ [(m, ts)]\<rparr>)"
  using assms by (auto simp: store_inv_def unique_canon_def)

lemma collect_insert_inv:
  assumes "store_inv st"
  shows "store_inv (fst (collect_insert es fc it canon st))"
proof (cases "canon \<in> seen_link st")
  case True
  then show ?thesis
    using assms by (simp add: collect_insert_seen)
next
  case False
  have "m_canon (collect_mention es fc it canon) = canon"
    by (simp add: collect_mention_def)
  then show ?thesis
    using store_inv_append [OF assms False]
    by (simp add: collect_insert_fresh [OF False store_inv_fresh [OF assms False]])
qed

lemma law360_insert_inv:
  assumes "store_inv st"
  shows "store_inv (fst (law360_insert it canon st))"
proof (cases "canon \<in> seen_link st")
  case True
  then show ?thesis
    using assms by (simp add: law360_insert_seen)
next
  case False
  have "m_canon (law360_mention it canon) = canon"
    by (simp add: law360_mention_def)
  then show ?thesis
    using store_inv_append [OF assms False]
    by (simp add: law360_insert_fresh [OF False store_inv_fresh [OF assms False]])
qed

lemma retention_trim_inv: "store_inv st \<Longrightarrow> store_inv (retention_trim now_ms st)"
  by (auto simp: store_inv_def unique_canon_def retention_trim_def Let_def
      zremrangebyscore_neg_inf_def distinct_map_filter)

lemma collect_item_inv:
  assumes "store_inv (r_store r)"
  shows "store_inv (r_store (collect_item api ext fc feedTitle now_ms e r))"
proof -
  have "store_inv (fst (collect_insert es fc it canon (r_store r)))"
       "store_inv (retention_trim now_ms (fst (collect_insert es fc it canon (r_store r))))"
    for es it canon
    using assms by (simp_all add: collect_insert_inv retention_trim_inv)
  then show ?thesis
    using assms by (simp add: collect_item_def Let_def case_prod_unfold)
qed

lemma law360_item_inv:
  assumes "store_inv (lr_store r)"
  shows "store_inv (lr_store (law360_item api now_ms e r))"
proof -
  have "store_inv (fst (law360_insert it canon (lr_store r)))"
       "store_inv (retention_trim now_ms (fst (law360_insert it canon (lr_store r))))"
    for it canon
    using assms by (simp_all add: law360_insert_inv retention_trim_inv)
  then show ?thesis
    using assms by (simp add: law360_item_def Let_def case_prod_unfold)
qed

section \<open>The congress tracker and the uniqueness of canonical URLs\<close>

lemma congress_mention_fields:
  "m_canon (congress_mention api p now_ms) = congress_normalizeUrl api billUrl \<and>
   m_published_ts (congress_mention api p now_ms) = toEpoch (p_parsed p) now_ms \<and>
   m_id (congress_mention api p now_ms) = congress_idFromCanonical (congress_normalizeUrl api billUrl)"
  by (simp add: congress_mention_def Let_def)

lemma congress_polls_differ:
  "congress_mention url_model poll2 example_now \<noteq> congress_mention url_model poll1 example_now"
proof
  assume "congress_mention url_model poll2 example_now = congress_mention url_model poll1 example_now"
  then have "m_extra (congress_mention url_model poll2 example_now) = m_extra (congress_mention url_model poll1 example_now)"
    by simp
  then show False
    by (simp add: congress_mention_def Let_def poll1_def poll2_def)
qed

lemma congress_store1_value:
  "congress_store1 =
     \<lparr>zset = [(congress_mention url_model poll1 example_now, 1749427200)],
      seen_id = {congress_idFromCanonical (congress_normalizeUrl url_model billUrl)},
      seen_link = {congress_normalizeUrl url_model billUrl}\<rparr>"
  by (simp add: congress_store1_def congress_handler_def congress_mention_fields sadd_def zadd_def
      retention_trim_def zremrangebyscore_neg_inf_def RETENTION_DAYS_def toEpoch_def
      empty_store_def poll1_def example_now_def Let_def)

lemma congress_store2_value:
  "congress_store2 =
     \<lparr>zset = [(congress_mention url_model poll1 example_now, 1749427200),
              (congress_mention url_model poll2 example_now, 1749427200)],
      seen_id = {congress_idFromCanonical (congress_normalizeUrl url_model billUrl)},
      seen_link = {congress_normalizeUrl url_model billUrl}\<rparr>"
  using congress_polls_differ
  by (simp add: congress_store2_def congress_store1_value congress_handler_def
      congress_mention_fields sadd_def zadd_def retention_trim_def zremrangebyscore_neg_inf_def
      RETENTION_DAYS_def toEpoch_def poll1_def poll2_def example_now_def Let_def)

lemma billUrl_modelled: "url_modelled billUrl"
  by code_simp

lemma congress_canon_value:
  "congress_normalizeUrl url_model billUrl = ''https://www.congress.gov/bill/119th-congress/house-bill/3838''"
  by code_simp

text \<open>
  C1 at the input the code mishandles. Two polls of the congress tracker between which the
  bill gained amendments build two different members with the same canonical URL; the
  handler adds both to the sorted set, so the store that held one member per canonical
  URL after the first poll holds two for one URL after the second.
\<close>

theorem congress_repoll_two_members:
  "unique_canon empty_store \<and> unique_canon congress_store1 \<and>
   map fst (zset congress_store2) =
     [congress_mention url_model poll1 example_now, congress_mention url_model poll2 example_now] \<and>
   congress_mention url_model poll1 example_now \<noteq> congress_mention url_model poll2 example_now \<and>
   m_canon (congress_mention url_model poll1 example_now) =
     ''https://www.congress.gov/bill/119th-congress/house-bill/3838'' \<and>
   m_canon (congress_mention url_model poll2 example_now) =
     ''https://www.congress.gov/bill/119th-congress/house-bill/3838'' \<and>
   \<not> unique_canon congress_store2"
  using congress_polls_differ
  by (auto simp: unique_canon_def empty_store_def congress_store1_value congress_store2_value
      congress_mention_fields congress_canon_value)

section \<open>The filter chain\<close>

lemma js_includes_iff: "js_includes s k \<longleftrightarrow> (\<exists>p q. s = p @ k @ q)"
proof (induction s)
  case Nil
  then show ?case by auto
next
  case (Cons c cs)
  show ?case
  proof
    assume "js_includes (c # cs) k"
    then consider "prefix k (c # cs)" | "js_includes cs k" by auto
    then show "\<exists>p q. c # cs = p @ k @ q"
    proof cases
      case 1
      then obtain q where "c # cs = k @ q" by (auto simp: prefix_def)
      then have "c # cs = [] @ k @ q" by simp
      then show ?thesis by blast
    next
      case 2
      then obtain p q where "cs = p @ k @ q" using Cons.IH by auto
      then have "c # cs = (c # p) @ k @ q" by simp
      then show ?thesis by blast
    qed
  next
    assume "\<exists>p q. c # cs = p @ k @ q"
    then obtain p q where pq: "c # cs = p @ k @ q" by auto
    show "js_includes (c # cs) k"
    proof (cases p)
      case Nil
      then have "prefix k (c # cs)" using pq by (simp add: prefix_def)
      then show ?thesis by simp
    next
      case (Cons d p')
      then have "cs = p' @ k @ q" using pq by simp
      then have "js_includes cs k" using Cons.IH by auto
      then show ?thesis by simp
    qed
  qed
qed

lemma toLowerCase_append: "toLowerCase (a @ b) = toLowerCase a @ toLowerCase b"
  by (simp add: toLowerCase_def)

lemma press_marker_rejected:
  assumes "keyword \<in> set pressReleaseKeywords"
    and "js_includes (toLowerCase (item_title e @ '' '' @ item_sum e @ '' '' @
                        displaySource api (extractItemLink api e) feedTitle)) keyword"
  shows "isPressRelease (item_title e) (item_sum e)
           (displaySource api (extractItemLink api e) feedTitle) \<and>
         collect_item api ext fc feedTitle now_ms e r = r"
proof -
  have "isPressRelease (item_title e) (item_sum e)
          (displaySource api (extractItemLink api e) feedTitle)"
    using assms by (auto simp: isPressRelease_def Let_def list_ex_iff)
  then show ?thesis
    by (simp add: collect_item_def Let_def)
qed






text \<open>
  A marker in the title and the summary alone rejects the item on every platform,
  whatever its link and its feed are: the parser has no part in it.
\<close>

lemma press_marker_in_text_rejected:
  assumes "keyword \<in> set pressReleaseKeywords"
    and "toLowerCase (item_title e @ '' '' @ item_sum e) = p @ keyword @ q"
  shows "collect_item api ext fc feedTitle now_ms e r = r"
proof -
  have "toLowerCase (item_title e @ '' '' @ item_sum e @ '' '' @
                     displaySource api (extractItemLink api e) feedTitle) =
        p @ keyword @ (q @ toLowerCase ('' '' @ displaySource api (extractItemLink api e) feedTitle))"
    using assms(2) toLowerCase_append [of "item_title e @ '' '' @ item_sum e"
        "'' '' @ displaySource api (extractItemLink api e) feedTitle"]
    by simp
  then have "js_includes (toLowerCase (item_title e @ '' '' @ item_sum e @ '' '' @
                      displaySource api (extractItemLink api e) feedTitle)) keyword"
    using js_includes_iff by blast
  then show ?thesis
    using press_marker_rejected [OF assms(1)] by blast
qed

text \<open>
  C7. For the origin \<open>stubhub\<close>: an item whose lower-cased title and summary contain an
  event keyword and a business keyword, no ticket-buying phrase, and which passes the
  universal filters, is not filtered.
\<close>

theorem stubhub_business_override:
  assumes "some_in eventFocusedKeywords (toLowerCase (title @ '' '' @ summ))"
    and "some_in businessKeywords (toLowerCase (title @ '' '' @ summ))"
    and "\<not> some_in ticketBuyingKeywords (toLowerCase (title @ '' '' @ summ))"
    and "\<not> universalFilter title summ source link"
  shows "\<not> shouldFilterArticle ''stubhub'' title summ source link"
  using assms by (simp add: shouldFilterArticle_def universalFilter_def Let_def)

lemma stubhub_example_event:
  "some_in eventFocusedKeywords (toLowerCase (stubhub_title @ '' '' @ stubhub_summary))"
  by code_simp

lemma stubhub_example_business:
  "some_in businessKeywords (toLowerCase (stubhub_title @ '' '' @ stubhub_summary))"
  by code_simp

lemma stubhub_example_guide:
  "\<not> some_in ticketBuyingKeywords (toLowerCase (stubhub_title @ '' '' @ stubhub_summary))"
  by code_simp

lemma stubhub_example_universal:
  "\<not> universalFilter stubhub_title stubhub_summary ''example.com'' ''https://example.com/stubhub''"
  by code_simp

theorem stubhub_business_override_witness:
  "some_in eventFocusedKeywords (toLowerCase (stubhub_title @ '' '' @ stubhub_summary)) \<and>
   some_in businessKeywords (toLowerCase (stubhub_title @ '' '' @ stubhub_summary)) \<and>
   \<not> some_in ticketBuyingKeywords (toLowerCase (stubhub_title @ '' '' @ stubhub_summary)) \<and>
   \<not> universalFilter stubhub_title stubhub_summary ''example.com'' ''https://example.com/stubhub'' \<and>
   \<not> shouldFilterArticle ''stubhub'' stubhub_title stubhub_summary ''example.com''
       ''https://example.com/stubhub''"
  using stubhub_example_event stubhub_example_business stubhub_example_guide
    stubhub_example_universal
    stubhub_business_override [OF stubhub_example_event stubhub_example_business
      stubhub_example_guide stubhub_example_universal]
  by blast

section \<open>Items without a link\<close>

lemma new_URL_empty: "new_URL [] = None"
  by (simp add: new_URL_def url_strip_def toLowerCase_def)

text \<open>
  On a platform whose constructor throws at the empty string, as the one of the standard
  does, the source of an item without a link is the feed title.
\<close>

lemma displaySource_empty:
  "URL_new api [] = None \<Longrightarrow> displaySource api [] fallback = fallback"
  by (simp add: displaySource_def hostOf_def normalizeHost_def strip_prefix_def
      toLowerCase_def or_else_def)

text \<open>
  C10. An item whose resolved link is empty is not skipped for that, on any platform.
  When it passes the filters and is no duplicate story, its canonical URL is
  \<open>normalizeUrl\<close> of the title, computed with the platform's parser as for a link; the
  source shown is \<open>displaySource\<close> of the empty link, the feed title wherever the
  constructor throws at the empty string. The item is dropped when that canonical URL is
  empty or already in the set of seen URLs; otherwise the mention is stored with the
  empty string as its link, the canonical URL of the title as its canonical URL, and the
  id of that canonical URL.
\<close>

theorem linkless_item_keyed_by_title:
  assumes "extractItemLink api e = []"
    and "\<not> isPressRelease (item_title e) (item_sum e) (displaySource api [] feedTitle)"
    and "\<not> isBlockedDomain ext []"
    and "\<not> isInternationalArticle ext (item_title e) (item_sum e) []
             (displaySource api [] feedTitle)"
    and "\<not> shouldFilterArticle (f_origin fc) (item_title e) (item_sum e)
             (displaySource api [] feedTitle) []"
    and "\<not> isDuplicateStory (client_deserializes ext) (r_store r) now_ms (item_title e)
             (item_sum e) (f_origin fc)"
  shows "collect_item api ext fc feedTitle now_ms e r =
           (if normalizeUrl api (item_title e) = [] then r
            else if normalizeUrl api (item_title e) \<in> seen_link (r_store r) then r
            else r\<lparr>r_store :=
                     retention_trim now_ms
                       ((r_store r)
                          \<lparr>seen_link := insert (normalizeUrl api (item_title e))
                                          (seen_link (r_store r)),
                           seen_id := insert (idFromCanonical (normalizeUrl api (item_title e)))
                                        (seen_id (r_store r)),
                           zset := zadd (zset (r_store r)) (toEpoch (e_date e) now_ms)
                                     \<lparr>m_id = idFromCanonical (normalizeUrl api (item_title e)),
                                      m_canon = normalizeUrl api (item_title e),
                                      m_section = f_section fc,
                                      m_title = or_else (item_title e) ''(untitled)'',
                                      m_link = [],
                                      m_source = displaySource api [] feedTitle,
                                      m_summary = item_sum e,
                                      m_origin = f_origin fc,
                                      m_published_ts = toEpoch (e_date e) now_ms,
                                      m_extra = RssExtra
                                        (if ENABLE_SENTIMENT ext
                                         then Some (sentimentScore (item_title e @ '' '' @ item_sum e))
                                         else None)\<rparr>\<rparr>),
                   found := found r + 1, stored := stored r + 1\<rparr>)"
  using assms
  by (auto simp: collect_item_def or_else_def collect_insert_def sadd_def
      collect_mention_def Let_def insert_absorb)

lemma linkless_item_link: "extractItemLink url_model linkless_item = []"
  by code_simp

lemma linkless_item_source: "displaySource url_model [] ''Guardant News'' = ''Guardant News''"
  by (simp add: displaySource_empty url_model_def new_URL_empty)

lemma linkless_item_title: "item_title linkless_item = ''Guardant trial enrolls first patient''"
  by code_simp

lemma linkless_item_sum: "item_sum linkless_item = ''The trial has started.''"
  by code_simp

lemma linkless_item_press:
  "\<not> isPressRelease ''Guardant trial enrolls first patient'' ''The trial has started.''
       ''Guardant News''"
  by code_simp

lemma linkless_item_filter:
  "\<not> shouldFilterArticle ''guardant_health'' ''Guardant trial enrolls first patient''
       ''The trial has started.'' ''Guardant News'' []"
  by code_simp

lemma linkless_item_canon:
  "normalizeUrl url_model ''Guardant trial enrolls first patient'' =
     ''Guardant trial enrolls first patient''"
  by code_simp

lemma linkless_item_modelled:
  "raw_link linkless_item = [] \<and> url_modelled [] \<and>
   url_modelled ''Guardant trial enrolls first patient''"
  by code_simp

lemma linkless_item_date: "e_date linkless_item = Some (example_now - 3600000)"
  by (simp add: linkless_item_def)

text \<open>
  The item of the example has no link and the title
  \<open>Guardant trial enrolls first patient\<close>, which has no scheme: the two strings that
  reach the parser, the empty link and the title, are inside the fragment of
  \<open>url_model\<close>.
\<close>

theorem linkless_item_keyed_by_title_witness:
  "url_modelled [] \<and>
   url_modelled (item_title linkless_item) \<and>
   extractItemLink url_model linkless_item = [] \<and>
   displaySource url_model [] ''Guardant News'' = ''Guardant News'' \<and>
   \<not> isPressRelease (item_title linkless_item) (item_sum linkless_item) ''Guardant News'' \<and>
   \<not> isBlockedDomain (no_externals False) [] \<and>
   \<not> isInternationalArticle (no_externals False) (item_title linkless_item)
       (item_sum linkless_item) [] ''Guardant News'' \<and>
   \<not> shouldFilterArticle (f_origin guardant_feed) (item_title linkless_item)
       (item_sum linkless_item) ''Guardant News'' [] \<and>
   \<not> isDuplicateStory (client_deserializes (no_externals False)) (r_store new_run) example_now
       (item_title linkless_item) (item_sum linkless_item) (f_origin guardant_feed) \<and>
   map (\<lambda>(m, s). (m_id m, m_canon m, m_link m, m_source m))
     (zset (r_store (collect_item url_model (no_externals False) guardant_feed ''Guardant News''
                       example_now linkless_item new_run))) =
     [(idFromCanonical ''Guardant trial enrolls first patient'',
       ''Guardant trial enrolls first patient'', [], ''Guardant News'')] \<and>
   stored (collect_item url_model (no_externals False) guardant_feed ''Guardant News''
             example_now linkless_item new_run) = 1"
proof -
  have m1: "url_modelled []"
    using linkless_item_modelled by simp
  have m2: "url_modelled (item_title linkless_item)"
    using linkless_item_modelled by (simp add: linkless_item_title)
  have h2: "\<not> isPressRelease (item_title linkless_item) (item_sum linkless_item)
       (displaySource url_model [] ''Guardant News'')"
    by (simp add: linkless_item_title linkless_item_sum linkless_item_press linkless_item_source)
  have h3: "\<not> isBlockedDomain (no_externals False) []"
    by (simp add: no_externals_def)
  have h4: "\<not> isInternationalArticle (no_externals False) (item_title linkless_item)
       (item_sum linkless_item) [] (displaySource url_model [] ''Guardant News'')"
    by (simp add: no_externals_def)
  have h5: "\<not> shouldFilterArticle (f_origin guardant_feed) (item_title linkless_item)
       (item_sum linkless_item) (displaySource url_model [] ''Guardant News'') []"
    by (simp add: linkless_item_title linkless_item_sum linkless_item_filter guardant_feed_def
        linkless_item_source)
  have h6: "\<not> isDuplicateStory (client_deserializes (no_externals False)) (r_store new_run)
       example_now (item_title linkless_item) (item_sum linkless_item) (f_origin guardant_feed)"
    by (simp add: new_run_def empty_store_def isDuplicateStory_def zrange_byscore_inf_def Let_def)
  have run: "map (\<lambda>(m, s). (m_id m, m_canon m, m_link m, m_source m))
     (zset (r_store (collect_item url_model (no_externals False) guardant_feed ''Guardant News''
                       example_now linkless_item new_run))) =
     [(idFromCanonical ''Guardant trial enrolls first patient'',
       ''Guardant trial enrolls first patient'', [], ''Guardant News'')] \<and>
   stored (collect_item url_model (no_externals False) guardant_feed ''Guardant News''
             example_now linkless_item new_run) = 1"
    unfolding linkless_item_keyed_by_title [OF linkless_item_link h2 h3 h4 h5 h6]
    by (simp add: linkless_item_title linkless_item_canon linkless_item_date linkless_item_source
        new_run_def empty_store_def zadd_def retention_trim_def zremrangebyscore_neg_inf_def
        RETENTION_DAYS_def toEpoch_def example_now_def Let_def)
  show ?thesis
    using m1 m2 linkless_item_link linkless_item_source h2 [unfolded linkless_item_source] h3
      h4 [unfolded linkless_item_source] h5 [unfolded linkless_item_source] h6 run
    by blast
qed

section \<open>Character classes\<close>








section \<open>Splitting and joining\<close>












section \<open>Stripping both ends\<close>










section \<open>Inputs without a scheme\<close>





section \<open>Parsing a serialized URL\<close>




section \<open>The steps of the canonicalizer on a parsed URL\<close>














section \<open>Idempotence of the canonicalizer\<close>











lemma double_slash_modelled:
  "url_modelled ''https://example.com/a//'' \<and> url_modelled ''https://example.com/a/''"
  by code_simp

text \<open>
  The two links of the spec's equivalence example have the same canonical form. Outside
  ASCII the fallback branch is not idempotent either: \<open>trim\<close> removes a no-break space
  that the URL parser does not strip, so an input that fails to parse can become one that
  parses. The input of that example starts with a no-break space, so it has no scheme and
  the parser of the standard fails on it as \<open>new_URL\<close> does; what \<open>trim\<close> leaves is
  inside the fragment.
\<close>

lemma normalizeUrl_equivalence_example:
  "normalizeUrl url_model ''https://Example.com/a?utm_source=x#frag'' = normalizeUrl url_model ''https://example.com/a''"
  by code_simp

lemma normalizeUrl_nbsp_example:
  "normalizeUrl url_model (CHR 0xA0 # ''https://example.com/a?utm_source=x'') =
     ''https://example.com/a?utm_source=x'' \<and>
   normalizeUrl url_model (normalizeUrl url_model (CHR 0xA0 # ''https://example.com/a?utm_source=x'')) =
     ''https://example.com/a''"
  by code_simp

end
